theory Spec2Isabelle
  imports Complex_Main "HOL-Library.Log_Nat"
begin

section \<open>JavaScript numbers\<close>

text \<open>
  The service computes with JavaScript numbers: IEEE 754 binary64 values. A finite
  non-zero value is kept as the rational it denotes; the two zeros, the two infinities
  and NaN are separate. Every arithmetic result is rounded to the nearest binary64
  value, ties to even (\<open>fl\<close>), so the model computes what the engine computes.
\<close>

datatype jsnum = Fin rat | NegZero | PosInf | NegInf | NaN

text \<open>The exponent \<open>e\<close> with \<open>2 ^ e \<le> q < 2 ^ (e + 1)\<close>, for a positive \<open>q\<close>.\<close>

definition binade :: "rat \<Rightarrow> int" where
  "binade q =
     (let k = bitlen (fst (quotient_of q)) - bitlen (snd (quotient_of q))
      in if 2 powi k \<le> q then k else k - 1)"

definition round_even :: "rat \<Rightarrow> int" where
  "round_even x =
     (let f = \<lfloor>x\<rfloor>; d = x - of_int f
      in if d < 1 / 2 then f
         else if 1 / 2 < d then f + 1
         else if even f then f else f + 1)"

text \<open>
  Rounding of a real result to binary64: 53 significant bits, exponents from
  \<open>-1022\<close> (below that the spacing stays \<open>2 ^ -1074\<close>), overflow to an infinity.
\<close>

definition fl :: "rat \<Rightarrow> jsnum" where
  "fl q =
     (if q = 0 then Fin 0
      else
        let ulp = 2 powi (max (binade \<bar>q\<bar>) (- 1022) - 52);
            m = round_even (\<bar>q\<bar> / ulp);
            r = of_int m * ulp
        in if 2 powi 1024 \<le> r then (if 0 < q then PosInf else NegInf)
           else if m = 0 then (if 0 < q then Fin 0 else NegZero)
           else Fin (if 0 < q then r else - r))"

fun is_negative :: "jsnum \<Rightarrow> bool" where
  "is_negative (Fin q) = (q < 0)"
| "is_negative NegZero = True"
| "is_negative NegInf = True"
| "is_negative PosInf = False"
| "is_negative NaN = False"

fun is_zero :: "jsnum \<Rightarrow> bool" where
  "is_zero (Fin q) = (q = 0)"
| "is_zero NegZero = True"
| "is_zero _ = False"

fun is_infinite :: "jsnum \<Rightarrow> bool" where
  "is_infinite PosInf = True"
| "is_infinite NegInf = True"
| "is_infinite _ = False"

fun is_finite :: "jsnum \<Rightarrow> bool" where
  "is_finite (Fin q) = True"
| "is_finite NegZero = True"
| "is_finite _ = False"

fun real_value :: "jsnum \<Rightarrow> rat" where
  "real_value (Fin q) = q"
| "real_value _ = 0"

definition signed_zero :: "bool \<Rightarrow> jsnum" where
  "signed_zero neg = (if neg then NegZero else Fin 0)"

definition signed_inf :: "bool \<Rightarrow> jsnum" where
  "signed_inf neg = (if neg then NegInf else PosInf)"

fun js_neg :: "jsnum \<Rightarrow> jsnum" where
  "js_neg (Fin q) = (if q = 0 then NegZero else Fin (- q))"
| "js_neg NegZero = Fin 0"
| "js_neg PosInf = NegInf"
| "js_neg NegInf = PosInf"
| "js_neg NaN = NaN"

text \<open>\<open>a + b\<close>: the sum of two zeros is negative only when both are.\<close>

definition js_add :: "jsnum \<Rightarrow> jsnum \<Rightarrow> jsnum" where
  "js_add a b =
     (if a = NaN \<or> b = NaN then NaN
      else if is_infinite a \<and> is_infinite b
        then (if a = b then a else NaN)
      else if is_infinite a then a
      else if is_infinite b then b
      else if is_zero a \<and> is_zero b
        then signed_zero (is_negative a \<and> is_negative b)
      else fl (real_value a + real_value b))"

text \<open>\<open>a - b\<close>\<close>

definition js_sub :: "jsnum \<Rightarrow> jsnum \<Rightarrow> jsnum" where
  "js_sub a b = js_add a (js_neg b)"

text \<open>\<open>a * b\<close>\<close>

definition js_mul :: "jsnum \<Rightarrow> jsnum \<Rightarrow> jsnum" where
  "js_mul a b =
     (let neg = (is_negative a \<noteq> is_negative b)
      in if a = NaN \<or> b = NaN then NaN
         else if is_infinite a \<or> is_infinite b
           then (if is_zero a \<or> is_zero b then NaN else signed_inf neg)
         else if is_zero a \<or> is_zero b then signed_zero neg
         else (case fl (real_value a * real_value b) of
                 Fin r \<Rightarrow> if r = 0 then signed_zero neg else Fin r
               | r \<Rightarrow> r))"

text \<open>\<open>a / b\<close>: a division by zero is not an error, it gives an infinity or NaN.\<close>

definition js_div :: "jsnum \<Rightarrow> jsnum \<Rightarrow> jsnum" where
  "js_div a b =
     (let neg = (is_negative a \<noteq> is_negative b)
      in if a = NaN \<or> b = NaN then NaN
         else if is_infinite a
           then (if is_infinite b then NaN else signed_inf neg)
         else if is_infinite b then signed_zero neg
         else if is_zero b then (if is_zero a then NaN else signed_inf neg)
         else if is_zero a then signed_zero neg
         else (case fl (real_value a / real_value b) of
                 Fin r \<Rightarrow> if r = 0 then signed_zero neg else Fin r
               | r \<Rightarrow> r))"

text \<open>
  A field of a provider record is optional: \<open>None\<close> is the absent field
  (\<open>undefined\<close>). In arithmetic \<open>undefined\<close> converts to NaN; in a condition
  \<open>undefined\<close>, both zeros and NaN are falsy.
\<close>

fun to_number :: "jsnum option \<Rightarrow> jsnum" where
  "to_number None = NaN"
| "to_number (Some x) = x"

fun truthy :: "jsnum option \<Rightarrow> bool" where
  "truthy None = False"
| "truthy (Some x) = (\<not> is_zero x \<and> x \<noteq> NaN)"

text \<open>\<open>x ?? d\<close>: the default replaces an absent value only.\<close>

fun nullish :: "'a option \<Rightarrow> 'a \<Rightarrow> 'a" where
  "nullish None d = d"
| "nullish (Some x) d = x"

text \<open>\<open>a >= b\<close> on numbers: false as soon as one side is NaN.\<close>

fun extended_le :: "jsnum \<Rightarrow> jsnum \<Rightarrow> bool" where
  "extended_le NaN _ = False"
| "extended_le _ NaN = False"
| "extended_le NegInf _ = True"
| "extended_le _ PosInf = True"
| "extended_le PosInf _ = False"
| "extended_le _ NegInf = False"
| "extended_le a b = (real_value a \<le> real_value b)"

definition js_ge :: "jsnum \<Rightarrow> jsnum \<Rightarrow> bool" where
  "js_ge a b = extended_le b a"

section \<open>Numbers and strings\<close>

text \<open>
  Formatting that depends on the host (its locale, its clock), and the general
  number-to-string conversion, are kept as parameters: a record of the host's functions.
\<close>

record host =
  numberToString :: "jsnum \<Rightarrow> string"
    \<comment> \<open>\<open>String(x)\<close>; the service only reaches it through a template literal or
        through \<open>toFixed\<close> from \<open>1e21\<close> on\<close>
  toLocaleString :: "jsnum \<Rightarrow> string"
    \<comment> \<open>\<open>x.toLocaleString()\<close>\<close>
  toLocaleFixed2 :: "jsnum \<Rightarrow> string"
    \<comment> \<open>\<open>x.toLocaleString(undefined, {minimumFractionDigits: 2, maximumFractionDigits: 2})\<close>\<close>
  toLocaleDateString :: "jsnum option \<Rightarrow> string"
    \<comment> \<open>\<open>new Date(t).toLocaleDateString()\<close>\<close>
  toLocaleMonthDay :: "jsnum option \<Rightarrow> string"
    \<comment> \<open>\<open>new Date(t).toLocaleDateString([], {month: 'short', day: 'numeric'})\<close>\<close>
  toLocaleTimeString :: "jsnum option \<Rightarrow> string"
    \<comment> \<open>\<open>new Date(t).toLocaleTimeString()\<close>\<close>
  dateStringToLocale :: "string \<Rightarrow> string"
    \<comment> \<open>\<open>new Date(s).toLocaleDateString()\<close> for a date given as text\<close>
  isoDateDaysAgo :: "nat \<Rightarrow> string"
    \<comment> \<open>the \<open>YYYY-MM-DD\<close> part of \<open>toISOString()\<close>, that many days before now\<close>

definition digit_char :: "nat \<Rightarrow> char" where
  "digit_char d = ''0123456789'' ! d"

definition is_digit :: "char \<Rightarrow> bool" where
  "is_digit ch = (ch \<in> set ''0123456789'')"

definition digit_val :: "char \<Rightarrow> nat" where
  "digit_val ch =
     (if ch = CHR ''1'' then 1 else if ch = CHR ''2'' then 2 else if ch = CHR ''3'' then 3
      else if ch = CHR ''4'' then 4 else if ch = CHR ''5'' then 5 else if ch = CHR ''6'' then 6
      else if ch = CHR ''7'' then 7 else if ch = CHR ''8'' then 8 else if ch = CHR ''9'' then 9
      else 0)"

text \<open>The decimal digits of a natural number, without leading zeros (\<open>0\<close> is \<open>"0"\<close>).\<close>

function nat_digits :: "nat \<Rightarrow> string" where
  "nat_digits n =
     (if n < 10 then [digit_char n] else nat_digits (n div 10) @ [digit_char (n mod 10)])"
  by pat_completeness auto
termination
  by (relation "measure id") auto

declare nat_digits.simps [simp del]

definition digits_value :: "string \<Rightarrow> nat" where
  "digits_value ds = foldl (\<lambda>acc ch. 10 * acc + digit_val ch) 0 ds"

text \<open>
  \<open>Number.prototype.toFixed(f)\<close>. A value that is not finite prints as its name; the
  sign is split off; below \<open>1e21\<close> the digits are those of the integer \<open>n\<close> nearest to
  \<open>x * 10 ^ f\<close> (the larger one on a tie), padded to at least \<open>f + 1\<close> digits, with
  the point before the last \<open>f\<close>.
\<close>

definition fixed_digits :: "nat \<Rightarrow> nat \<Rightarrow> string" where
  "fixed_digits f n =
     (let m = nat_digits n;
          m' = replicate (f + 1 - length m) CHR ''0'' @ m;
          k = length m'
      in if f = 0 then m else take (k - f) m' @ ''.'' @ drop (k - f) m')"

definition nearest_scaled :: "nat \<Rightarrow> rat \<Rightarrow> nat" where
  "nearest_scaled f x = nat \<lfloor>x * 10 ^ f + 1 / 2\<rfloor>"

definition toFixed :: "host \<Rightarrow> nat \<Rightarrow> jsnum \<Rightarrow> string" where
  "toFixed H f x =
     (case x of
        NaN \<Rightarrow> ''NaN''
      | PosInf \<Rightarrow> ''Infinity''
      | NegInf \<Rightarrow> ''-Infinity''
      | NegZero \<Rightarrow> fixed_digits f 0
      | Fin q \<Rightarrow>
          (if q < 0 then ''-'' else []) @
          (if 10 ^ 21 \<le> \<bar>q\<bar> then numberToString H (Fin \<bar>q\<bar>)
           else fixed_digits f (nearest_scaled f \<bar>q\<bar>)))"

text \<open>A method call on an absent value throws a \<open>TypeError\<close>.\<close>

datatype fault = Error string | TypeError | SchemaError string

fun method_toFixed :: "host \<Rightarrow> nat \<Rightarrow> jsnum option \<Rightarrow> fault + string" where
  "method_toFixed H f None = Inl TypeError"
| "method_toFixed H f (Some x) = Inr (toFixed H f x)"

fun method_toLocaleString :: "host \<Rightarrow> jsnum option \<Rightarrow> fault + string" where
  "method_toLocaleString H None = Inl TypeError"
| "method_toLocaleString H (Some x) = Inr (toLocaleString H x)"

text \<open>
  Reading a number from text (a string is a list of bytes here, and the blanks are the
  ASCII ones). \<open>str_decimal\<close> reads the longest unsigned decimal
  literal at the front (digits, an optional fraction, an optional exponent that has at
  least one digit) and returns its exact value with the text left over.
\<close>

definition is_space :: "char \<Rightarrow> bool" where
  "is_space ch = (ch \<in> set [CHR '' '', CHR 0x09, CHR 0x0A, CHR 0x0B, CHR 0x0C, CHR 0x0D])"

definition exponent_part :: "string \<Rightarrow> int \<times> string" where
  "exponent_part s =
     (case s of
        [] \<Rightarrow> (0, s)
      | e # t \<Rightarrow>
          if e = CHR ''e'' \<or> e = CHR ''E'' then
            (let neg = (t \<noteq> [] \<and> hd t = CHR ''-'');
                 u = (if t \<noteq> [] \<and> (hd t = CHR ''-'' \<or> hd t = CHR ''+'') then tl t else t);
                 ds = takeWhile is_digit u
             in if ds = [] then (0, s)
                else (if neg then - int (digits_value ds) else int (digits_value ds),
                      dropWhile is_digit u))
          else (0, s))"

definition str_decimal :: "string \<Rightarrow> (rat \<times> string) option" where
  "str_decimal s =
     (let ip = takeWhile is_digit s;
          r1 = dropWhile is_digit s;
          dot = (r1 \<noteq> [] \<and> hd r1 = CHR ''.'');
          fp = (if dot then takeWhile is_digit (tl r1) else []);
          r2 = (if dot then dropWhile is_digit (tl r1) else r1)
      in if ip = [] \<and> fp = [] then None
         else Some ((of_nat (digits_value ip) + of_nat (digits_value fp) / 10 ^ length fp)
                      * 10 powi fst (exponent_part r2),
                    snd (exponent_part r2)))"

definition signed_value :: "bool \<Rightarrow> rat \<Rightarrow> jsnum" where
  "signed_value neg q = (if q = 0 then signed_zero neg else fl (if neg then - q else q))"

text \<open>\<open>parseFloat(s)\<close>: leading blanks are skipped and anything after the literal is ignored.\<close>

definition parseFloat :: "string \<Rightarrow> jsnum" where
  "parseFloat s =
     (let t = dropWhile is_space s;
          neg = (t \<noteq> [] \<and> hd t = CHR ''-'');
          u = (if t \<noteq> [] \<and> (hd t = CHR ''-'' \<or> hd t = CHR ''+'') then tl t else t)
      in if take 8 u = ''Infinity'' then signed_inf neg
         else (case str_decimal u of
                 None \<Rightarrow> NaN
               | Some (q, rest) \<Rightarrow> signed_value neg q))"

text \<open>
  \<open>Number(s)\<close> for a string: blanks are trimmed on both sides, the empty string is
  \<open>0\<close>, and the whole of what is left must be one literal. The radix literals
  (\<open>0x\<close>, \<open>0o\<close>, \<open>0b\<close>) are not produced by anything in this service and read as NaN here.
\<close>

definition trim :: "string \<Rightarrow> string" where
  "trim s = rev (dropWhile is_space (rev (dropWhile is_space s)))"

definition Number_of_string :: "string \<Rightarrow> jsnum" where
  "Number_of_string s =
     (let t = trim s;
          neg = (t \<noteq> [] \<and> hd t = CHR ''-'');
          u = (if t \<noteq> [] \<and> (hd t = CHR ''-'' \<or> hd t = CHR ''+'') then tl t else t)
      in if t = [] then Fin 0
         else if u = ''Infinity'' then signed_inf neg
         else (case str_decimal u of
                 None \<Rightarrow> NaN
               | Some (q, rest) \<Rightarrow> if rest = [] then signed_value neg q else NaN))"

section \<open>The market-data provider\<close>

text \<open>
  An aggregate bar as the provider returns it. Every field is optional in the
  provider's typings; \<open>None\<close> is an absent field.
\<close>

record bar =
  bar_o :: "jsnum option"
  bar_c :: "jsnum option"
  bar_h :: "jsnum option"
  bar_l :: "jsnum option"
  bar_v :: "jsnum option"
  bar_vw :: "jsnum option"
  bar_t :: "jsnum option"

text \<open>
  News, dividend and split records. Their textual fields are taken as present; a
  numeric field on which the service calls a method is optional.
\<close>

record news_item =
  ni_title :: string
  ni_publisher_name :: string
  ni_published_utc :: string
  ni_article_url :: string

record dividend =
  ex_dividend_date :: string
  cash_amount :: "jsnum option"
  pay_date :: string

record split =
  execution_date :: string
  split_to :: "jsnum option"
  split_from :: "jsnum option"

record aggs_query =
  aq_ticker :: string
  aq_multiplier :: jsnum
  aq_timespan :: string
  aq_from :: string
  aq_to :: string
  aq_sort :: "string option"
  aq_limit :: "jsnum option"

record limit_query =
  lq_ticker :: string
  lq_limit :: jsnum

text \<open>
  The client. A call either rejects (\<open>Inl\<close>) or resolves to a response, of which the
  service reads the \<open>results\<close> member only: \<open>None\<close> when the member is absent.
\<close>

record client =
  aggregates :: "aggs_query \<Rightarrow> fault + bar list option"
  previousClose :: "string \<Rightarrow> fault + bar list option"
  tickerNews :: "limit_query \<Rightarrow> fault + news_item list option"
  dividends :: "limit_query \<Rightarrow> fault + dividend list option"
  stockSplits :: "limit_query \<Rightarrow> fault + split list option"

text \<open>The requests a handler sends, in the order it sends them.\<close>

datatype request =
  Aggregates aggs_query
| PreviousClose string
| TickerNews limit_query
| Dividends limit_query
| StockSplits limit_query

fun and_then :: "fault + 'a \<Rightarrow> ('a \<Rightarrow> fault + 'b) \<Rightarrow> fault + 'b" where
  "and_then (Inl e) f = Inl e"
| "and_then (Inr x) f = f x"

section \<open>Envelopes and UI nodes\<close>

text \<open>
  A UI node carries its payload as JSON text (\<open>uiData: JSON.stringify(v)\<close>). The
  model keeps the JSON value that text denotes: a member whose value is \<open>undefined\<close>
  or a function is left out, a number that is not finite becomes \<open>null\<close>, and
  \<open>-0\<close> becomes \<open>0\<close>.
\<close>

datatype json =
  JNull
| JBool bool
| JNum rat
| JStr string
| JArr "json list"
| JObj "(string \<times> json) list"

definition json_number :: "jsnum \<Rightarrow> json" where
  "json_number x = (if is_finite x then JNum (real_value x) else JNull)"

fun member :: "string \<Rightarrow> json option \<Rightarrow> (string \<times> json) list" where
  "member k None = []"
| "member k (Some j) = [(k, j)]"

text \<open>
  A node is \<open>{type, uiData, children}\<close>, where \<open>uiData\<close> and \<open>children\<close> may be
  missing, or \<open>{type, children}\<close> with a text for \<open>children\<close>.
\<close>

datatype ui_node =
  UINode (ui_type: string) (uiData: "json option") (children: "ui_node list option")
| UIText (ui_type: string) (ui_content: string)

record price_data =
  pd_price :: jsnum
  pd_high :: jsnum
  pd_low :: jsnum
  pd_volume :: jsnum
  pd_change :: jsnum
  pd_changePercent :: jsnum

record article =
  art_title :: string
  art_publisher :: string
  art_timestamp :: string
  art_url :: string

record index_result =
  ix_name :: string
  ix_price :: string
  ix_change :: string
  ix_changePercent :: string
  ix_isPositive :: bool

datatype env_data =
  DataNull
| PriceData price_data
| NewsData "article list"
| DividendData "dividend list"
| SplitData "split list"
| OverviewData "index_result list"

record envelope =
  env_text :: string
  env_data :: env_data
  env_ui :: ui_node

subsection \<open>Tables\<close>

record column =
  col_key :: string
  col_header :: string
  col_type :: string
  col_width :: "string option"

type_synonym row = "(string \<times> json) list"

definition column_json :: "column \<Rightarrow> json" where
  "column_json cl =
     JObj ([(''key'', JStr (col_key cl)), (''header'', JStr (col_header cl)),
            (''type'', JStr (col_type cl))]
           @ member ''width'' (map_option JStr (col_width cl)))"

text \<open>The payload \<open>{columns, rows}\<close> of a table node.\<close>

definition table_payload :: "column list \<Rightarrow> row list \<Rightarrow> json" where
  "table_payload cs rs = JObj [(''columns'', JArr (map column_json cs)), (''rows'', JArr (map JObj rs))]"

text \<open>Reading a table payload back.\<close>

fun json_field :: "string \<Rightarrow> json \<Rightarrow> json option" where
  "json_field k (JObj ms) = map_of ms k"
| "json_field k _ = None"

fun json_string :: "json option \<Rightarrow> string option" where
  "json_string (Some (JStr s)) = Some s"
| "json_string _ = None"

definition read_column :: "json \<Rightarrow> column option" where
  "read_column j =
     (case (json_string (json_field ''key'' j), json_string (json_field ''header'' j),
            json_string (json_field ''type'' j)) of
        (Some k, Some h, Some ty) \<Rightarrow>
          Some \<lparr>col_key = k, col_header = h, col_type = ty,
                col_width = json_string (json_field ''width'' j)\<rparr>
      | _ \<Rightarrow> None)"

fun read_row :: "json \<Rightarrow> row option" where
  "read_row (JObj ms) = Some ms"
| "read_row _ = None"

definition read_table_payload :: "json \<Rightarrow> (column list \<times> row list) option" where
  "read_table_payload j =
     (case (json_field ''columns'' j, json_field ''rows'' j) of
        (Some (JArr cs), Some (JArr rs)) \<Rightarrow>
          (case (those (map read_column cs), those (map read_row rs)) of
             (Some cols, Some rws) \<Rightarrow> Some (cols, rws)
           | _ \<Rightarrow> None)
      | _ \<Rightarrow> None)"

definition read_table :: "ui_node \<Rightarrow> (column list \<times> row list) option" where
  "read_table n =
     (case n of
        UINode ty (Some j) ch \<Rightarrow> if ty = ''table'' then read_table_payload j else None
      | _ \<Rightarrow> None)"

section \<open>The price tool\<close>

text \<open>
  The handlers are \<open>async\<close> functions: a \<open>throw\<close> and a rejected \<open>await\<close> both
  reject the handler's promise, which is the outcome \<open>Inl\<close>. A handler's result is the
  list of requests it sent and that outcome. The \<open>console.log\<close> lines, and with them
  the caller's \<open>agentInfo\<close>, have no part in the result and are left out.
\<close>

text \<open>\<open>aggs.results?.[0]\<close>\<close>

definition first_result :: "'a list option \<Rightarrow> 'a option" where
  "first_result rs = (case rs of None \<Rightarrow> None | Some [] \<Rightarrow> None | Some (x # xs) \<Rightarrow> Some x)"

subsection \<open>Daily aggregates, nodes written out (\<open>src/stonks/src/index.ts\<close>)\<close>

text \<open>\<open>const change = latestData.c - latestData.o\<close>\<close>

definition bar_change :: "bar \<Rightarrow> jsnum" where
  "bar_change latestData = js_sub (to_number (bar_c latestData)) (to_number (bar_o latestData))"

text \<open>\<open>const changePercent = ((change) / latestData.o * 100).toFixed(2)\<close>\<close>

definition bar_changePercent :: "host \<Rightarrow> bar \<Rightarrow> string" where
  "bar_changePercent H latestData =
     toFixed H 2 (js_mul (js_div (bar_change latestData) (to_number (bar_o latestData))) (Fin 100))"

definition chart_config :: json where
  "chart_config =
     JObj [(''height'', JNum 350), (''colors'', JArr [JStr ''#3B82F6'']),
           (''margin'', JObj [(''left'', JNum 12), (''right'', JNum 12)])]"

definition price_point :: "host \<Rightarrow> bar \<Rightarrow> row" where
  "price_point H b =
     member ''time'' (Some (JStr (toLocaleDateString H (bar_t b))))
     @ member ''price'' (map_option json_number (bar_c b))"

definition price_chartData :: "host \<Rightarrow> string \<Rightarrow> bar list option \<Rightarrow> string \<Rightarrow> json" where
  "price_chartData H ticker results changePercent =
     JObj [(''type'', JStr ''line''),
           (''title'', JStr (ticker @ '' 5-Day Price History'')),
           (''description'', JStr ''Price movement over the last 5 trading days''),
           (''data'', JArr (map (JObj \<circ> price_point H) (rev (nullish results [])))),
           (''config'', chart_config),
           (''dataKeys'', JObj [(''x'', JStr ''time''), (''y'', JStr ''price'')]),
           (''trend'', JObj [(''value'', json_number (parseFloat changePercent)),
                             (''text'', JStr (changePercent @ ''% change''))])]"

definition metric_row :: "string \<Rightarrow> string \<Rightarrow> row" where
  "metric_row m v = [(''metric'', JStr m), (''value'', JStr v)]"

text \<open>The five rows of the statistics table; each method call needs its field.\<close>

definition price_rows :: "host \<Rightarrow> bar \<Rightarrow> fault + row list" where
  "price_rows H latestData =
     and_then (method_toLocaleString H (bar_v latestData)) (\<lambda>vol.
     and_then (method_toFixed H 2 (bar_o latestData)) (\<lambda>opn.
     and_then (method_toFixed H 2 (bar_h latestData)) (\<lambda>hi.
     and_then (method_toFixed H 2 (bar_l latestData)) (\<lambda>lo.
     and_then (method_toFixed H 2 (bar_vw latestData)) (\<lambda>vwap.
       Inr [metric_row ''Volume'' vol,
            metric_row ''Open'' (''$'' @ opn),
            metric_row ''High'' (''$'' @ hi),
            metric_row ''Low'' (''$'' @ lo),
            metric_row ''VWAP'' (''$'' @ vwap)])))))"

definition price_columns :: "column list" where
  "price_columns =
     [\<lparr>col_key = ''metric'', col_header = ''Metric'', col_type = ''text'', col_width = Some ''40%''\<rparr>,
      \<lparr>col_key = ''value'', col_header = ''Value'', col_type = ''text'', col_width = Some ''60%''\<rparr>]"

definition price_summary :: "string \<Rightarrow> string \<Rightarrow> string \<Rightarrow> string" where
  "price_summary ticker close changePercent =
     ticker @ '' is trading at $'' @ close @ ''. Today's change: '' @ changePercent @ ''%''"

definition price_data_of :: "bar \<Rightarrow> string \<Rightarrow> price_data" where
  "price_data_of latestData changePercent =
     \<lparr>pd_price = to_number (bar_c latestData), pd_high = to_number (bar_h latestData),
      pd_low = to_number (bar_l latestData), pd_volume = to_number (bar_v latestData),
      pd_change = bar_change latestData, pd_changePercent = parseFloat changePercent\<rparr>"

definition daily_query :: "host \<Rightarrow> string \<Rightarrow> aggs_query" where
  "daily_query H ticker =
     \<lparr>aq_ticker = ticker, aq_multiplier = Fin 1, aq_timespan = ''day'',
      aq_from = isoDateDaysAgo H 7, aq_to = isoDateDaysAgo H 0,
      aq_sort = Some ''desc'', aq_limit = Some (Fin 10)\<rparr>"

text \<open>What the handler does with the response, once the request has resolved.\<close>

definition getStockPrice_respond :: "host \<Rightarrow> string \<Rightarrow> bar list option \<Rightarrow> fault + envelope" where
  "getStockPrice_respond H ticker results =
     (case first_result results of
        None \<Rightarrow> Inl (Error (''No data available for '' @ ticker))
      | Some latestData \<Rightarrow>
          (let changePercent = bar_changePercent H latestData;
               chartData = price_chartData H ticker results changePercent
           in and_then (price_rows H latestData) (\<lambda>rws.
              and_then (method_toFixed H 2 (bar_c latestData)) (\<lambda>close.
                Inr \<lparr>env_text = price_summary ticker close changePercent,
                     env_data = PriceData (price_data_of latestData changePercent),
                     env_ui =
                       UINode ''div''
                         (Some (JObj [(''title'', JStr (ticker @ '' Stock Price and Stats'')),
                                      (''content'', JStr (price_summary ticker close changePercent))]))
                         (Some [UINode ''chart'' (Some chartData) None,
                                UINode ''table'' (Some (table_payload price_columns rws)) None])\<rparr>))))"

definition getStockPrice :: "host \<Rightarrow> client \<Rightarrow> string \<Rightarrow> request list \<times> (fault + envelope)" where
  "getStockPrice H cl ticker =
     ([Aggregates (daily_query H ticker)],
      and_then (aggregates cl (daily_query H ticker)) (getStockPrice_respond H ticker))"

subsection \<open>Previous close, nodes written out (\<open>src/unnamed/part_001\<close>)\<close>

text \<open>\<open>const change = prevCloseData.c ? prevCloseData.c - prevCloseData.o : 0\<close>\<close>

definition guarded_change :: "bar \<Rightarrow> jsnum" where
  "guarded_change d =
     (if truthy (bar_c d) then js_sub (to_number (bar_c d)) (to_number (bar_o d)) else Fin 0)"

text \<open>\<open>const changePercent = ((change) / (prevCloseData.o ?? 1) * 100).toFixed(2)\<close>\<close>

definition guarded_changePercent :: "host \<Rightarrow> bar \<Rightarrow> string" where
  "guarded_changePercent H d =
     toFixed H 2 (js_mul (js_div (guarded_change d) (nullish (bar_o d) (Fin 1))) (Fin 100))"

definition intraday_point :: "host \<Rightarrow> bar \<Rightarrow> row" where
  "intraday_point H b =
     [(''time'', JStr (toLocaleTimeString H (bar_t b))),
      (''price'', json_number (nullish (bar_c b) (Fin 0)))]"

definition intraday_chartData :: "host \<Rightarrow> string \<Rightarrow> bar list option \<Rightarrow> string \<Rightarrow> json" where
  "intraday_chartData H ticker results changePercent =
     JObj [(''type'', JStr ''line''),
           (''title'', JStr (ticker @ '' 24 Hour Price History'')),
           (''description'', JStr ''Price movement over the last 24 hours''),
           (''data'', JArr (map (JObj \<circ> intraday_point H) (nullish results []))),
           (''config'', chart_config),
           (''dataKeys'', JObj [(''x'', JStr ''time''), (''y'', JStr ''price'')]),
           (''trend'', JObj [(''value'', json_number (parseFloat changePercent)),
                             (''text'', JStr (changePercent @ ''% change''))])]"

definition intraday_query :: "host \<Rightarrow> string \<Rightarrow> aggs_query" where
  "intraday_query H ticker =
     \<lparr>aq_ticker = ticker, aq_multiplier = Fin 30, aq_timespan = ''minute'',
      aq_from = isoDateDaysAgo H 1, aq_to = isoDateDaysAgo H 0,
      aq_sort = None, aq_limit = None\<rparr>"

text \<open>\<open>prevClose.results[0]\<close>: indexing an absent \<open>results\<close> throws.\<close>

definition index_first :: "'a list option \<Rightarrow> fault + 'a option" where
  "index_first rs = (case rs of None \<Rightarrow> Inl TypeError | Some xs \<Rightarrow> Inr (first_result (Some xs)))"

text \<open>\<open>prevCloseData.c?.toFixed(2)\<close> inside a template literal\<close>

definition optional_toFixed :: "host \<Rightarrow> jsnum option \<Rightarrow> string" where
  "optional_toFixed H x = (case x of None \<Rightarrow> ''undefined'' | Some v \<Rightarrow> toFixed H 2 v)"

text \<open>
  The statistics table of this variant is computed and then not used (its node is
  commented out), and computing it cannot throw: the model leaves it out.
\<close>

definition getStockPrice_prev_respond ::
  "host \<Rightarrow> string \<Rightarrow> bar option \<Rightarrow> bar list option \<Rightarrow> fault + envelope" where
  "getStockPrice_prev_respond H ticker prevCloseData results =
     (case prevCloseData of
        None \<Rightarrow> Inl TypeError
      | Some d \<Rightarrow>
          (let changePercent = guarded_changePercent H d;
               summary = price_summary ticker (optional_toFixed H (bar_c d)) changePercent
           in Inr \<lparr>env_text = summary,
                   env_data = PriceData
                     \<lparr>pd_price = nullish (bar_c d) (Fin 0), pd_high = nullish (bar_h d) (Fin 0),
                      pd_low = nullish (bar_l d) (Fin 0), pd_volume = nullish (bar_v d) (Fin 0),
                      pd_change = guarded_change d, pd_changePercent = parseFloat changePercent\<rparr>,
                   env_ui =
                     UINode ''div''
                       (Some (JObj [(''title'', JStr (ticker @ '' Stock Price and Stats'')),
                                    (''content'', JStr summary)]))
                       (Some [UINode ''chart''
                                (Some (intraday_chartData H ticker results changePercent)) None])\<rparr>))"

definition getStockPrice_prev :: "host \<Rightarrow> client \<Rightarrow> string \<Rightarrow> request list \<times> (fault + envelope)" where
  "getStockPrice_prev H cl ticker =
     (case and_then (previousClose cl ticker) index_first of
        Inl e \<Rightarrow> ([PreviousClose ticker], Inl e)
      | Inr prevCloseData \<Rightarrow>
          ([PreviousClose ticker, Aggregates (intraday_query H ticker)],
           and_then (aggregates cl (intraday_query H ticker))
             (getStockPrice_prev_respond H ticker prevCloseData)))"

section \<open>The UI builders\<close>

text \<open>
  Modelled from the spec: the builders \<open>CardUIBuilder\<close>, \<open>TableUIBuilder\<close>,
  \<open>ChartUIBuilder\<close> and \<open>AlertUIBuilder\<close> are imported from
  \<open>@dainprotocol/utils\<close>, and the source of that package is not part of the sources
  at hand. They follow section 4.1 of the specification: a builder accumulates its
  configuration and \<open>build\<close> emits the node; a leaf node has an empty list of
  children; a card keeps its children in the order of the \<open>addChild\<close> calls; a table
  without columns and a chart whose first point lacks the \<open>x\<close> or \<open>y\<close> key are
  refused with a \<open>SchemaError\<close>. A method \<open>b.m(x)\<close> of the source is \<open>m x b\<close> here.
\<close>

text \<open>
  Modelled from the spec: \<open>TableUIBuilder\<close> of \<open>@dainprotocol/utils\<close>, whose source
  is missing. It holds the columns added so far and the rows.
\<close>

record table_builder =
  tb_columns :: "column list"
  tb_rows :: "row list"

definition TableUIBuilder :: table_builder where
  "TableUIBuilder = \<lparr>tb_columns = [], tb_rows = []\<rparr>"

definition addColumns :: "column list \<Rightarrow> table_builder \<Rightarrow> table_builder" where
  "addColumns cs b = b\<lparr>tb_columns := tb_columns b @ cs\<rparr>"

definition rows :: "row list \<Rightarrow> table_builder \<Rightarrow> table_builder" where
  "rows rs b = b\<lparr>tb_rows := rs\<rparr>"

text \<open>
  Modelled from the spec: \<open>build()\<close> of the missing \<open>TableUIBuilder\<close>. Section 4.1:
  a table is a leaf node and is refused with a \<open>SchemaError\<close> if it has no column.
\<close>

definition table_build :: "table_builder \<Rightarrow> fault + ui_node" where
  "table_build b =
     (if tb_columns b = [] then Inl (SchemaError ''columns'')
      else Inr (UINode ''table'' (Some (table_payload (tb_columns b) (tb_rows b))) (Some [])))"

text \<open>
  Modelled from the spec: \<open>buildTable(columns, rows)\<close> of section 4.1, the missing
  \<open>TableUIBuilder\<close> used in one go.
\<close>

definition buildTable :: "column list \<Rightarrow> row list \<Rightarrow> fault + ui_node" where
  "buildTable cs rs = table_build (rows rs (addColumns cs TableUIBuilder))"

text \<open>
  Modelled from the spec: \<open>ChartUIBuilder\<close> of \<open>@dainprotocol/utils\<close>, whose source
  is missing. It holds what \<open>buildChart\<close> of section 4.1 takes: kind, title,
  description, series, data keys, trend and footer.
\<close>

record chart_builder =
  ch_type :: "string option"
  ch_title :: "string option"
  ch_description :: "string option"
  ch_data :: "row list"
  ch_dataKeys :: "(string \<times> string) list"
  ch_trend :: "(jsnum \<times> string) option"
  ch_footer :: "string option"

definition ChartUIBuilder :: chart_builder where
  "ChartUIBuilder =
     \<lparr>ch_type = None, ch_title = None, ch_description = None, ch_data = [],
      ch_dataKeys = [], ch_trend = None, ch_footer = None\<rparr>"

definition chart_type :: "string \<Rightarrow> chart_builder \<Rightarrow> chart_builder" where
  "chart_type ty b = b\<lparr>ch_type := Some ty\<rparr>"

definition chart_title :: "string \<Rightarrow> chart_builder \<Rightarrow> chart_builder" where
  "chart_title s b = b\<lparr>ch_title := Some s\<rparr>"

definition chart_description :: "string \<Rightarrow> chart_builder \<Rightarrow> chart_builder" where
  "chart_description s b = b\<lparr>ch_description := Some s\<rparr>"

definition chartData :: "row list \<Rightarrow> chart_builder \<Rightarrow> chart_builder" where
  "chartData ps b = b\<lparr>ch_data := ps\<rparr>"

definition dataKeys :: "(string \<times> string) list \<Rightarrow> chart_builder \<Rightarrow> chart_builder" where
  "dataKeys ks b = b\<lparr>ch_dataKeys := ks\<rparr>"

definition trend :: "jsnum \<Rightarrow> string \<Rightarrow> chart_builder \<Rightarrow> chart_builder" where
  "trend v s b = b\<lparr>ch_trend := Some (v, s)\<rparr>"

definition footer :: "string \<Rightarrow> chart_builder \<Rightarrow> chart_builder" where
  "footer s b = b\<lparr>ch_footer := Some s\<rparr>"

definition has_key :: "(string \<times> string) list \<Rightarrow> string \<Rightarrow> row \<Rightarrow> bool" where
  "has_key ks axis p = (case map_of ks axis of None \<Rightarrow> False | Some k \<Rightarrow> k \<in> set (map fst p))"

definition chart_payload :: "chart_builder \<Rightarrow> json" where
  "chart_payload b =
     JObj (member ''type'' (map_option JStr (ch_type b))
           @ member ''title'' (map_option JStr (ch_title b))
           @ member ''description'' (map_option JStr (ch_description b))
           @ [(''data'', JArr (map JObj (ch_data b))),
              (''dataKeys'', JObj (map (\<lambda>(k, v). (k, JStr v)) (ch_dataKeys b)))]
           @ member ''trend''
               (map_option (\<lambda>(v, s). JObj [(''value'', json_number v), (''text'', JStr s)])
                  (ch_trend b))
           @ member ''footer'' (map_option JStr (ch_footer b)))"

text \<open>
  Modelled from the spec: \<open>build()\<close> of the missing \<open>ChartUIBuilder\<close>. Section 4.1:
  a chart is a leaf node and is refused with a \<open>SchemaError\<close> if the series is not
  empty and its first point lacks the key named by \<open>dataKeys.x\<close> or \<open>dataKeys.y\<close>.
\<close>

definition chart_build :: "chart_builder \<Rightarrow> fault + ui_node" where
  "chart_build b =
     (case ch_data b of
        [] \<Rightarrow> Inr (UINode ''chart'' (Some (chart_payload b)) (Some []))
      | p # ps \<Rightarrow>
          if has_key (ch_dataKeys b) ''x'' p \<and> has_key (ch_dataKeys b) ''y'' p
          then Inr (UINode ''chart'' (Some (chart_payload b)) (Some []))
          else Inl (SchemaError ''dataKeys''))"

text \<open>
  Modelled from the spec: \<open>CardUIBuilder\<close> of \<open>@dainprotocol/utils\<close>, whose source
  is missing. Section 4.1: an optional title, an optional content, and the children
  added so far.
\<close>

record card_builder =
  cd_title :: "string option"
  cd_content :: "string option"
  cd_children :: "ui_node list"

definition CardUIBuilder :: card_builder where
  "CardUIBuilder = \<lparr>cd_title = None, cd_content = None, cd_children = []\<rparr>"

definition card_title :: "string \<Rightarrow> card_builder \<Rightarrow> card_builder" where
  "card_title s b = b\<lparr>cd_title := Some s\<rparr>"

definition card_content :: "string \<Rightarrow> card_builder \<Rightarrow> card_builder" where
  "card_content s b = b\<lparr>cd_content := Some s\<rparr>"

text \<open>
  Modelled from the spec: \<open>addChild\<close> of the missing \<open>CardUIBuilder\<close>. Section 4.1:
  the children of the built node are the nodes added, in call order.
\<close>

definition addChild :: "ui_node \<Rightarrow> card_builder \<Rightarrow> card_builder" where
  "addChild n b = b\<lparr>cd_children := cd_children b @ [n]\<rparr>"

text \<open>
  Modelled from the spec: \<open>build()\<close> of the missing \<open>CardUIBuilder\<close>.
\<close>

definition card_build :: "card_builder \<Rightarrow> ui_node" where
  "card_build b =
     UINode ''card''
       (Some (JObj (member ''title'' (map_option JStr (cd_title b))
                    @ member ''content'' (map_option JStr (cd_content b)))))
       (Some (cd_children b))"

text \<open>
  Modelled from the spec: \<open>AlertUIBuilder\<close> of \<open>@dainprotocol/utils\<close>, whose source
  is missing. Section 4.1: \<open>buildAlert(variant, message)\<close> gives a leaf node, the
  variant being \<open>info\<close>, \<open>warning\<close> or \<open>error\<close>.
\<close>

datatype alert_variant = Info | Warning | Failure

fun variant_name :: "alert_variant \<Rightarrow> string" where
  "variant_name Info = ''info''"
| "variant_name Warning = ''warning''"
| "variant_name Failure = ''error''"

record alert_builder =
  al_variant :: "alert_variant option"
  al_message :: "string option"

definition AlertUIBuilder :: alert_builder where
  "AlertUIBuilder = \<lparr>al_variant = None, al_message = None\<rparr>"

definition withVariant :: "alert_variant \<Rightarrow> alert_builder \<Rightarrow> alert_builder" where
  "withVariant v b = b\<lparr>al_variant := Some v\<rparr>"

definition withMessage :: "string \<Rightarrow> alert_builder \<Rightarrow> alert_builder" where
  "withMessage s b = b\<lparr>al_message := Some s\<rparr>"

text \<open>
  Modelled from the spec: \<open>build()\<close> of the missing \<open>AlertUIBuilder\<close>.
\<close>

definition alert_build :: "alert_builder \<Rightarrow> ui_node" where
  "alert_build b =
     UINode ''alert''
       (Some (JObj (member ''variant'' (map_option (JStr \<circ> variant_name) (al_variant b))
                    @ member ''message'' (map_option JStr (al_message b)))))
       (Some [])"

subsection \<open>Daily aggregates, nodes from the builders (\<open>src/unnamed/part_000\<close>)\<close>

definition built_columns :: "column list" where
  "built_columns =
     [\<lparr>col_key = ''metric'', col_header = ''Metric'', col_type = ''text'', col_width = None\<rparr>,
      \<lparr>col_key = ''value'', col_header = ''Value'', col_type = ''text'', col_width = None\<rparr>]"

definition price_chartBuilder :: "host \<Rightarrow> string \<Rightarrow> bar list option \<Rightarrow> string \<Rightarrow> chart_builder" where
  "price_chartBuilder H ticker results changePercent =
     trend (parseFloat changePercent) (changePercent @ ''% change'')
       (dataKeys [(''x'', ''time''), (''y'', ''price''), (''name'', ''Price'')]
         (chartData (map (price_point H) (rev (nullish results [])))
           (chart_description ''Price movement over the last 5 trading days''
             (chart_title (ticker @ '' 5-Day Price History'')
               (chart_type ''line'' ChartUIBuilder)))))"

definition getStockPrice_built_respond :: "host \<Rightarrow> string \<Rightarrow> bar list option \<Rightarrow> fault + envelope" where
  "getStockPrice_built_respond H ticker results =
     (case first_result results of
        None \<Rightarrow> Inl (Error (''No data available for '' @ ticker))
      | Some latestData \<Rightarrow>
          (let changePercent = bar_changePercent H latestData;
               chartBuilder = price_chartBuilder H ticker results changePercent
           in and_then (price_rows H latestData) (\<lambda>rws.
              and_then (method_toFixed H 2 (bar_c latestData)) (\<lambda>close.
              and_then (chart_build chartBuilder) (\<lambda>chartNode.
              and_then (table_build (rows rws (addColumns built_columns TableUIBuilder))) (\<lambda>tableNode.
                Inr \<lparr>env_text = price_summary ticker close changePercent,
                     env_data = PriceData (price_data_of latestData changePercent),
                     env_ui =
                       card_build
                         (addChild tableNode
                           (addChild chartNode
                             (card_content (price_summary ticker close changePercent)
                               (card_title (ticker @ '' Stock Price and Stats'')
                                 CardUIBuilder))))\<rparr>))))))"

definition getStockPrice_built :: "host \<Rightarrow> client \<Rightarrow> string \<Rightarrow> request list \<times> (fault + envelope)" where
  "getStockPrice_built H cl ticker =
     ([Aggregates (daily_query H ticker)],
      and_then (aggregates cl (daily_query H ticker)) (getStockPrice_built_respond H ticker))"

section \<open>The tools with an optional \<open>limit\<close>\<close>

text \<open>
  The input of the news, dividends and splits tools: \<open>limit\<close> is optional in the
  schema, and the handler's parameter pattern \<open>{ ticker, limit = n }\<close> gives it its
  default. The three handlers below are those of \<open>src/stonks/src/index.ts\<close>.
\<close>

record limit_input =
  in_ticker :: string
  in_limit :: "jsnum option"

fun map_result :: "('a \<Rightarrow> fault + 'b) \<Rightarrow> 'a list \<Rightarrow> fault + 'b list" where
  "map_result f [] = Inr []"
| "map_result f (x # xs) = and_then (f x) (\<lambda>y. and_then (map_result f xs) (\<lambda>ys. Inr (y # ys)))"

text \<open>\<open>response.results.map(...)\<close>, \<open>response.results.length\<close>: an absent \<open>results\<close> throws.\<close>

definition required_results :: "'a list option \<Rightarrow> fault + 'a list" where
  "required_results rs = (case rs of None \<Rightarrow> Inl TypeError | Some xs \<Rightarrow> Inr xs)"

definition article_of :: "news_item \<Rightarrow> article" where
  "article_of a =
     \<lparr>art_title = ni_title a, art_publisher = ni_publisher_name a,
      art_timestamp = ni_published_utc a, art_url = ni_article_url a\<rparr>"

definition news_columns :: "column list" where
  "news_columns =
     [\<lparr>col_key = ''publisher'', col_header = ''Source'', col_type = ''text'', col_width = Some ''20%''\<rparr>,
      \<lparr>col_key = ''title'', col_header = ''Title'', col_type = ''text'', col_width = Some ''50%''\<rparr>,
      \<lparr>col_key = ''url'', col_header = ''Link'', col_type = ''link'', col_width = Some ''15%''\<rparr>,
      \<lparr>col_key = ''timestamp'', col_header = ''Published'', col_type = ''text'', col_width = Some ''15%''\<rparr>]"

definition news_row :: "host \<Rightarrow> article \<Rightarrow> row" where
  "news_row H a =
     [(''title'', JStr (art_title a)),
      (''publisher'', JStr (art_publisher a)),
      (''timestamp'', JStr (dateStringToLocale H (art_timestamp a))),
      (''url'', JObj [(''text'', JStr ''Read More''), (''url'', JStr (art_url a))])]"

definition getStockNews_respond :: "host \<Rightarrow> string \<Rightarrow> news_item list option \<Rightarrow> fault + envelope" where
  "getStockNews_respond H ticker results =
     and_then (required_results results) (\<lambda>rs.
       (let articles = map article_of rs
        in Inr \<lparr>env_text = ''Found '' @ nat_digits (length articles) @ '' news articles for '' @ ticker,
                env_data = NewsData articles,
                env_ui = UINode ''table''
                           (Some (table_payload news_columns (map (news_row H) articles))) None\<rparr>))"

definition getStockNews :: "host \<Rightarrow> client \<Rightarrow> limit_input \<Rightarrow> request list \<times> (fault + envelope)" where
  "getStockNews H cl inp =
     (let ticker = in_ticker inp;
          limit = nullish (in_limit inp) (Fin 5);
          query = \<lparr>lq_ticker = ticker, lq_limit = limit\<rparr>
      in ([TickerNews query], and_then (tickerNews cl query) (getStockNews_respond H ticker)))"

definition dividend_columns :: "column list" where
  "dividend_columns =
     [\<lparr>col_key = ''date'', col_header = ''Ex-Dividend Date'', col_type = ''text'', col_width = Some ''30%''\<rparr>,
      \<lparr>col_key = ''amount'', col_header = ''Amount'', col_type = ''text'', col_width = Some ''30%''\<rparr>,
      \<lparr>col_key = ''payDate'', col_header = ''Pay Date'', col_type = ''text'', col_width = Some ''40%''\<rparr>]"

definition dividend_row :: "host \<Rightarrow> dividend \<Rightarrow> fault + row" where
  "dividend_row H d =
     and_then (method_toFixed H 2 (cash_amount d)) (\<lambda>amount.
       Inr [(''date'', JStr (dateStringToLocale H (ex_dividend_date d))),
            (''amount'', JStr (''$'' @ amount)),
            (''payDate'', JStr (dateStringToLocale H (pay_date d)))])"

definition getStockDividends_respond :: "host \<Rightarrow> string \<Rightarrow> dividend list option \<Rightarrow> fault + envelope" where
  "getStockDividends_respond H ticker results =
     and_then (required_results results) (\<lambda>rs.
     and_then (map_result (dividend_row H) rs) (\<lambda>rws.
       Inr \<lparr>env_text = ''Retrieved last '' @ nat_digits (length rs) @ '' dividend records for '' @ ticker,
            env_data = DividendData rs,
            env_ui = UINode ''table'' (Some (table_payload dividend_columns rws)) None\<rparr>))"

definition getStockDividends :: "host \<Rightarrow> client \<Rightarrow> limit_input \<Rightarrow> request list \<times> (fault + envelope)" where
  "getStockDividends H cl inp =
     (let ticker = in_ticker inp;
          limit = nullish (in_limit inp) (Fin 10);
          query = \<lparr>lq_ticker = ticker, lq_limit = limit\<rparr>
      in ([Dividends query], and_then (dividends cl query) (getStockDividends_respond H ticker)))"

definition split_columns :: "column list" where
  "split_columns =
     [\<lparr>col_key = ''date'', col_header = ''Execution Date'', col_type = ''text'', col_width = Some ''40%''\<rparr>,
      \<lparr>col_key = ''ratio'', col_header = ''Split Ratio'', col_type = ''text'', col_width = Some ''60%''\<rparr>]"

text \<open>A number inside a template literal.\<close>

definition template_number :: "host \<Rightarrow> jsnum option \<Rightarrow> string" where
  "template_number H x = (case x of None \<Rightarrow> ''undefined'' | Some v \<Rightarrow> numberToString H v)"

definition split_row :: "host \<Rightarrow> split \<Rightarrow> row" where
  "split_row H s =
     [(''date'', JStr (dateStringToLocale H (execution_date s))),
      (''ratio'', JStr (template_number H (split_to s) @ '':'' @ template_number H (split_from s)))]"

definition getStockSplits_respond :: "host \<Rightarrow> string \<Rightarrow> split list option \<Rightarrow> fault + envelope" where
  "getStockSplits_respond H ticker results =
     and_then (required_results results) (\<lambda>rs.
       Inr \<lparr>env_text = ''Retrieved last '' @ nat_digits (length rs) @ '' stock splits for '' @ ticker,
            env_data = SplitData rs,
            env_ui = UINode ''table'' (Some (table_payload split_columns (map (split_row H) rs))) None\<rparr>)"

definition getStockSplits :: "host \<Rightarrow> client \<Rightarrow> limit_input \<Rightarrow> request list \<times> (fault + envelope)" where
  "getStockSplits H cl inp =
     (let ticker = in_ticker inp;
          limit = nullish (in_limit inp) (Fin 5);
          query = \<lparr>lq_ticker = ticker, lq_limit = limit\<rparr>
      in ([StockSplits query], and_then (stockSplits cl query) (getStockSplits_respond H ticker)))"

section \<open>The market-overview widget\<close>

definition indices :: "(string \<times> string) list" where
  "indices =
     [(''DIA'', ''Dow Jones''), (''SPY'', ''S&P 500''), (''QQQ'', ''NASDAQ''),
      (''IWM'', ''Russell 2000'')]"

text \<open>The body of the callback mapped over \<open>indices\<close>, after its \<open>await\<close>.\<close>

definition index_entry :: "host \<Rightarrow> string \<Rightarrow> bar list option \<Rightarrow> index_result" where
  "index_entry H name results =
     (case first_result results of
        None \<Rightarrow>
          \<lparr>ix_name = name, ix_price = ''N/A'', ix_change = ''0.00'',
           ix_changePercent = ''0.00'', ix_isPositive = True\<rparr>
      | Some d \<Rightarrow>
          \<lparr>ix_name = name,
           ix_price = (case bar_c d of None \<Rightarrow> ''N/A'' | Some cv \<Rightarrow> toFixed H 2 cv),
           ix_change = toFixed H 2 (guarded_change d),
           ix_changePercent = guarded_changePercent H d,
           ix_isPositive = js_ge (guarded_change d) (Fin 0)\<rparr>)"

text \<open>
  \<open>Promise.all\<close>: every request has been sent when it is awaited; it rejects as soon
  as one of them rejects. Which rejection it carries is of no consequence, since the
  \<open>catch\<close> below only logs it.
\<close>

fun Promise_all :: "(fault + 'a) list \<Rightarrow> fault + 'a list" where
  "Promise_all [] = Inr []"
| "Promise_all (p # ps) =
     (case p of
        Inl e \<Rightarrow> Inl e
      | Inr x \<Rightarrow> (case Promise_all ps of Inl e \<Rightarrow> Inl e | Inr xs \<Rightarrow> Inr (x # xs)))"

definition index_lookups :: "host \<Rightarrow> client \<Rightarrow> fault + index_result list" where
  "index_lookups H cl =
     Promise_all
       (map (\<lambda>(ticker, name). map_sum id (index_entry H name) (previousClose cl ticker)) indices)"

definition index_requests :: "request list" where
  "index_requests = map (\<lambda>(ticker, name). PreviousClose ticker) indices"

definition sign_prefix :: "index_result \<Rightarrow> string" where
  "sign_prefix r = (if ix_isPositive r then ''+'' else [])"

definition overview_price :: "host \<Rightarrow> index_result \<Rightarrow> string" where
  "overview_price H r =
     (if ix_price r = ''N/A'' then ''N/A''
      else ''$'' @ toLocaleFixed2 H (Number_of_string (ix_price r)))"

definition overview_change :: "host \<Rightarrow> index_result \<Rightarrow> string" where
  "overview_change H r = sign_prefix r @ ''$'' @ toLocaleFixed2 H (Number_of_string (ix_change r))"

definition overview_percent :: "host \<Rightarrow> index_result \<Rightarrow> string" where
  "overview_percent H r =
     sign_prefix r @ toLocaleFixed2 H (Number_of_string (ix_changePercent r)) @ ''%''"

definition overview_text :: "index_result list \<Rightarrow> string" where
  "overview_text results = ''Market Overview - S&P 500: '' @ ix_changePercent (results ! 1) @ ''%''"

definition unavailable :: string where
  "unavailable =
     ''Unable to load market data at this time. Please check your Polygon.io API key and permissions.''"

subsection \<open>Nodes written out (\<open>src/stonks/src/index.ts\<close>)\<close>

definition overview_columns :: "column list" where
  "overview_columns =
     [\<lparr>col_key = ''name'', col_header = ''Index'', col_type = ''text'', col_width = Some ''30%''\<rparr>,
      \<lparr>col_key = ''price'', col_header = ''Price'', col_type = ''text'', col_width = Some ''25%''\<rparr>,
      \<lparr>col_key = ''change'', col_header = ''Change'', col_type = ''text'', col_width = Some ''25%''\<rparr>,
      \<lparr>col_key = ''changePercent'', col_header = ''%'', col_type = ''text'', col_width = Some ''20%''\<rparr>]"

definition trend_colour :: "index_result \<Rightarrow> json" where
  "trend_colour r = JObj [(''color'', JStr (if ix_isPositive r then ''#22C55E'' else ''#EF4444''))]"

definition overview_row :: "host \<Rightarrow> index_result \<Rightarrow> row" where
  "overview_row H r =
     [(''name'', JStr (ix_name r)),
      (''price'', JStr (overview_price H r)),
      (''change'', JStr (overview_change H r)),
      (''changePercent'', JStr (overview_percent H r)),
      (''style'', JObj [(''change'', trend_colour r), (''changePercent'', trend_colour r)])]"

text \<open>\<open>Number(Number(bar.c).toFixed(2))\<close>\<close>

definition rounded_close :: "host \<Rightarrow> bar \<Rightarrow> jsnum" where
  "rounded_close H b = Number_of_string (toFixed H 2 (to_number (bar_c b)))"

definition history_point :: "host \<Rightarrow> bar \<Rightarrow> row" where
  "history_point H b =
     [(''time'', JStr (toLocaleMonthDay H (bar_t b))),
      (''price'', json_number (rounded_close H b)),
      (''label'', JStr (''$'' @ toLocaleString H (rounded_close H b)))]"

text \<open>\<open>.filter(point => point.price)\<close> keeps the points whose price is truthy.\<close>

definition history_points :: "host \<Rightarrow> bar list option \<Rightarrow> row list" where
  "history_points H results =
     map (history_point H) (filter (\<lambda>b. truthy (Some (rounded_close H b))) (nullish results []))"

text \<open>The \<open>format\<close> member of \<open>yAxis\<close> is a function and does not reach the JSON text.\<close>

definition history_chartData :: "host \<Rightarrow> bar list option \<Rightarrow> json" where
  "history_chartData H results =
     JObj [(''type'', JStr ''line''),
           (''title'', JStr ''S&P 500''),
           (''description'', JStr ''30-day price history''),
           (''data'', JArr (map JObj (history_points H results))),
           (''config'',
              JObj [(''height'', JNum 200), (''colors'', JArr [JStr ''#3B82F6'']),
                    (''margin'', JObj [(''left'', JNum 8), (''right'', JNum 8),
                                       (''top'', JNum 20), (''bottom'', JNum 20)]),
                    (''yAxis'', JObj [(''minPadding'', json_number (fl (1 / 10))),
                                      (''maxPadding'', json_number (fl (1 / 10)))])]),
           (''dataKeys'', JObj [(''x'', JStr ''time''), (''y'', JStr ''price''),
                                (''tooltip'', JStr ''label'')])]"

definition history_query :: "host \<Rightarrow> aggs_query" where
  "history_query H =
     \<lparr>aq_ticker = ''SPY'', aq_multiplier = Fin 1, aq_timespan = ''day'',
      aq_from = isoDateDaysAgo H 30, aq_to = isoDateDaysAgo H 0,
      aq_sort = None, aq_limit = None\<rparr>"

text \<open>The envelope of the \<open>catch\<close> block.\<close>

definition overview_failure :: envelope where
  "overview_failure =
     \<lparr>env_text = ''Failed to load market overview'', env_data = DataNull,
      env_ui = UIText ''p'' unavailable\<rparr>"

text \<open>\<open>const children = [table]; if (chartData.data.length > 0) children.push(chart)\<close>\<close>

definition overview_children :: "host \<Rightarrow> index_result list \<Rightarrow> bar list option \<Rightarrow> ui_node list" where
  "overview_children H results history =
     [UINode ''table'' (Some (table_payload overview_columns (map (overview_row H) results))) None]
     @ (if 0 < length (history_points H history)
        then [UINode ''chart'' (Some (history_chartData H history)) None] else [])"

definition overview_style :: json where
  "overview_style =
     JObj [(''style'',
            JObj [(''padding'', JStr ''12px''), (''backgroundColor'', JStr ''#ffffff''),
                  (''borderRadius'', JStr ''8px''),
                  (''boxShadow'', JStr ''0 1px 3px rgba(0,0,0,0.12)'')])]"

definition getMarketOverviewWidget :: "host \<Rightarrow> client \<Rightarrow> request list \<times> envelope" where
  "getMarketOverviewWidget H cl =
     (case index_lookups H cl of
        Inl e \<Rightarrow> (index_requests, overview_failure)
      | Inr results \<Rightarrow>
          (case aggregates cl (history_query H) of
             Inl e \<Rightarrow> (index_requests @ [Aggregates (history_query H)], overview_failure)
           | Inr history \<Rightarrow>
               (index_requests @ [Aggregates (history_query H)],
                \<lparr>env_text = overview_text results,
                 env_data = OverviewData results,
                 env_ui = UINode ''div'' (Some overview_style)
                            (Some (overview_children H results (history)))\<rparr>)))"

subsection \<open>Nodes from the builders (\<open>src/unnamed/part_000\<close>)\<close>

definition built_overview_columns :: "column list" where
  "built_overview_columns =
     [\<lparr>col_key = ''name'', col_header = ''Index'', col_type = ''text'', col_width = None\<rparr>,
      \<lparr>col_key = ''price'', col_header = ''Price'', col_type = ''text'', col_width = None\<rparr>,
      \<lparr>col_key = ''change'', col_header = ''Change'', col_type = ''text'', col_width = None\<rparr>,
      \<lparr>col_key = ''changePercent'', col_header = ''%'', col_type = ''text'', col_width = None\<rparr>]"

definition built_overview_row :: "host \<Rightarrow> index_result \<Rightarrow> row" where
  "built_overview_row H r =
     [(''name'', JStr (ix_name r)),
      (''price'', JStr (overview_price H r)),
      (''change'', JStr (overview_change H r)),
      (''changePercent'', JStr (overview_percent H r))]"

definition index_point :: "index_result \<Rightarrow> row" where
  "index_point r =
     [(''time'', JStr (ix_name r)), (''price'', json_number (Number_of_string (ix_price r)))]"

definition built_overview_chart :: "index_result list \<Rightarrow> chart_builder" where
  "built_overview_chart results =
     dataKeys [(''x'', ''time''), (''y'', ''price''), (''name'', ''S&P 500 Price'')]
       (chartData (map index_point (filter (\<lambda>r. ix_price r \<noteq> ''N/A'') results))
         (chart_description ''30-day price history''
           (chart_title ''S&P 500'' (chart_type ''line'' ChartUIBuilder))))"

definition built_overview_failure :: envelope where
  "built_overview_failure =
     \<lparr>env_text = ''Failed to load market overview'', env_data = DataNull,
      env_ui = alert_build (withMessage unavailable (withVariant Failure AlertUIBuilder))\<rparr>"

definition built_overview_success :: "host \<Rightarrow> index_result list \<Rightarrow> fault + envelope" where
  "built_overview_success H results =
     and_then (table_build (rows (map (built_overview_row H) results)
                             (addColumns built_overview_columns TableUIBuilder))) (\<lambda>tableNode.
     and_then (chart_build (built_overview_chart results)) (\<lambda>chartNode.
       Inr \<lparr>env_text = overview_text results,
            env_data = OverviewData results,
            env_ui = card_build (addChild chartNode (addChild tableNode CardUIBuilder))\<rparr>))"

definition getMarketOverviewWidget_built :: "host \<Rightarrow> client \<Rightarrow> request list \<times> envelope" where
  "getMarketOverviewWidget_built H cl =
     (index_requests,
      case and_then (index_lookups H cl) (built_overview_success H) of
        Inl e \<Rightarrow> built_overview_failure
      | Inr env \<Rightarrow> env)"

section \<open>The dispatcher\<close>

text \<open>
  Modelled from the spec: the dispatcher (\<open>invoke\<close>, \<open>invokeWidget\<close>) is the
  service runtime of \<open>@dainprotocol/service-sdk\<close>, reached through
  \<open>defineDAINService\<close>; its source is not part of the sources at hand. It follows
  section 4.3 of the specification, from the contract that the look-up by id has found:
  the input is validated, and a refused input is answered with an envelope; the handler
  runs on the validated input; a handler that fails is answered with an envelope of the
  same shape (\<open>text\<close> describing the failure, \<open>data: null\<close>, an \<open>alert\<close> node of
  variant \<open>error\<close>); a handler that succeeds has its envelope returned unchanged. How a
  failure is described is left open by the specification and is the parameter
  \<open>describe\<close>.
\<close>

text \<open>
  Modelled from the spec: the failure-shaped envelope of section 4.3, built by the
  missing dispatcher: \<open>text\<close> describing the failure, \<open>data: null\<close>,
  \<open>ui: alert(variant = "error", message)\<close>.
\<close>

definition failure_envelope :: "string \<Rightarrow> envelope" where
  "failure_envelope msg =
     \<lparr>env_text = msg, env_data = DataNull,
      env_ui = alert_build (withMessage msg (withVariant Failure AlertUIBuilder))\<rparr>"

text \<open>
  Modelled from the spec: \<open>invoke\<close> of the missing dispatcher, steps 2 to 5 of
  section 4.3.
\<close>

definition invoke ::
  "(fault \<Rightarrow> string) \<Rightarrow> ('raw \<Rightarrow> string + 'i) \<Rightarrow> ('i \<Rightarrow> request list \<times> (fault + envelope))
     \<Rightarrow> 'raw \<Rightarrow> request list \<times> envelope" where
  "invoke describe validate handler rawInput =
     (case validate rawInput of
        Inl msg \<Rightarrow> ([], failure_envelope msg)
      | Inr inp \<Rightarrow>
          (case handler inp of
             (sent, Inl e) \<Rightarrow> (sent, failure_envelope (describe e))
           | (sent, Inr env) \<Rightarrow> (sent, env)))"


section \<open>Reading a node\<close>

text \<open>What a caller, a renderer or a test reads off a node.\<close>

fun child_nodes :: "ui_node \<Rightarrow> ui_node list" where
  "child_nodes (UINode ty d (Some cs)) = cs"
| "child_nodes (UINode ty d None) = []"
| "child_nodes (UIText ty s) = []"





text \<open>The cells under one key, row by row, of a table node.\<close>

definition table_cells :: "string \<Rightarrow> ui_node \<Rightarrow> json option list option" where
  "table_cells k n = map_option (\<lambda>(cs, rs). map (\<lambda>r. map_of r k) rs) (read_table n)"

section \<open>Scenarios\<close>

text \<open>Concrete hosts, bars and clients, at which the theorems below are evaluated.\<close>

definition plain_host :: host where
  "plain_host =
     \<lparr>numberToString = (\<lambda>x. ''<number>''),
      toLocaleString = (\<lambda>x. ''<number>''),
      toLocaleFixed2 = (\<lambda>x. ''<number>''),
      toLocaleDateString = (\<lambda>t. ''<date>''),
      toLocaleMonthDay = (\<lambda>t. ''<date>''),
      toLocaleTimeString = (\<lambda>t. ''<time>''),
      dateStringToLocale = (\<lambda>s. ''<date>''),
      isoDateDaysAgo = (\<lambda>n. ''<day>'')\<rparr>"

text \<open>The bar \<open>{o: 150, c: 157.5, h: 158, l: 149, v: 1000000}\<close>, with or without \<open>vw\<close>.\<close>

definition scenario_bar :: "jsnum option \<Rightarrow> bar" where
  "scenario_bar vw =
     \<lparr>bar_o = Some (Fin 150), bar_c = Some (Fin (315 / 2)), bar_h = Some (Fin 158),
      bar_l = Some (Fin 149), bar_v = Some (Fin 1000000), bar_vw = vw, bar_t = None\<rparr>"

text \<open>A bar of which only the open and the close matter.\<close>

definition open_close :: "jsnum option \<Rightarrow> jsnum option \<Rightarrow> bar" where
  "open_close opn cls =
     \<lparr>bar_o = opn, bar_c = cls, bar_h = cls, bar_l = opn, bar_v = Some (Fin 1000),
      bar_vw = cls, bar_t = None\<rparr>"


text \<open>
  A client that answers each previous-close request from \<open>closes\<close> and each
  aggregates request with the outcome \<open>history\<close>.
\<close>

definition serving :: "(string \<Rightarrow> bar list option) \<Rightarrow> (fault + bar list option) \<Rightarrow> client" where
  "serving closes history =
     \<lparr>aggregates = (\<lambda>q. history),
      previousClose = (\<lambda>t. Inr (closes t)),
      tickerNews = (\<lambda>q. Inr (Some [])),
      dividends = (\<lambda>q. Inr (Some [])),
      stockSplits = (\<lambda>q. Inr (Some []))\<rparr>"

text \<open>Three indices with a bar, and no data for the NASDAQ one.\<close>

definition three_of_four :: "string \<Rightarrow> bar list option" where
  "three_of_four ticker =
     (if ticker = ''QQQ'' then Some [] else Some [open_close (Some (Fin 100)) (Some (Fin 105))])"

section \<open>Evaluating the arithmetic\<close>

text \<open>
  The exponent found by \<open>binade\<close> is the only one that brackets its argument, so
  a rounding can be evaluated from any exponent shown to bracket it.
\<close>

lemma powi2_gap: "(2::rat) powi i \<le> q \<Longrightarrow> q < 2 powi j \<Longrightarrow> i < j"
proof (rule ccontr)
  assume a: "(2::rat) powi i \<le> q" "q < 2 powi j" and n: "\<not> i < j"
  from n have "(2::rat) powi j \<le> 2 powi i" by (intro power_int_increasing) auto
  with a show False by linarith
qed

lemma bitlen_powi_bounds:
  assumes "0 < a"
  shows "(2::rat) powi (bitlen a - 1) \<le> of_int a" "(of_int a :: rat) < 2 powi bitlen a"
proof -
  from assms have ge: "1 \<le> bitlen a" by (auto simp: bitlen_alt_def)
  from bitlen_bounds[OF assms] have l: "2 ^ nat (bitlen a - 1) \<le> a" and u: "a < 2 ^ nat (bitlen a)" by auto
  from l have "(of_int (2 ^ nat (bitlen a - 1)) :: rat) \<le> of_int a" by (simp only: of_int_le_iff)
  then show "(2::rat) powi (bitlen a - 1) \<le> of_int a" using ge by (simp add: power_int_def)
  from u have "(of_int a :: rat) < of_int (2 ^ nat (bitlen a))" by (simp only: of_int_less_iff)
  then show "(of_int a :: rat) < 2 powi bitlen a" using ge by (simp add: power_int_def)
qed

lemma ratio_powi_bounds:
  assumes "0 < a" "0 < b"
  shows "(2::rat) powi (bitlen a - bitlen b - 1) < of_int a / of_int b"
    and "(of_int a / of_int b :: rat) < 2 powi (bitlen a - bitlen b + 1)"
proof -
  note A = bitlen_powi_bounds[OF assms(1)] and B = bitlen_powi_bounds[OF assms(2)]
  have bpos: "(0::rat) < of_int b" using assms by simp
  have apos: "(0::rat) < of_int a" using assms by simp
  have "(2::rat) powi (bitlen a - bitlen b - 1) = 2 powi (bitlen a - 1) / 2 powi bitlen b"
    by (simp add: power_int_diff)
  also have "\<dots> \<le> of_int a / 2 powi bitlen b" using A(1) by (simp add: divide_right_mono)
  also have "\<dots> < of_int a / of_int b" using B(2) apos bpos by (simp add: divide_strict_left_mono)
  finally show "(2::rat) powi (bitlen a - bitlen b - 1) < of_int a / of_int b" .
  have "(of_int a / of_int b :: rat) < 2 powi bitlen a / of_int b" using A(2) bpos by (simp add: divide_strict_right_mono)
  also have "\<dots> \<le> 2 powi bitlen a / 2 powi (bitlen b - 1)" using B(1) bpos by (intro divide_left_mono) (auto intro: mult_pos_pos)
  also have "\<dots> = 2 powi (bitlen a - bitlen b + 1)" by (simp add: power_int_diff power_int_add)
  finally show "(of_int a / of_int b :: rat) < 2 powi (bitlen a - bitlen b + 1)" .
qed

lemma binade_bounds:
  assumes "0 < q"
  shows "2 powi binade q \<le> q \<and> q < 2 powi (binade q + 1)"
proof -
  obtain a b where ab: "quotient_of q = (a, b)" by (cases "quotient_of q")
  then have q: "q = of_int a / of_int b" and b: "0 < b"
    by (auto simp: quotient_of_div quotient_of_denom_pos)
  with assms have a: "0 < a" by (simp add: zero_less_divide_iff)
  from ratio_powi_bounds[OF a b] show ?thesis
    using ab q by (auto simp: binade_def Let_def)
qed

lemma binade_unique:
  assumes "2 powi e \<le> q" "q < 2 powi (e + 1)"
  shows "binade q = e"
proof -
  have "0 < q" using assms(1) by (meson less_le_trans zero_less_numeral zero_less_power_int)
  from binade_bounds[OF this] have l: "2 powi binade q \<le> q" and u: "q < 2 powi (binade q + 1)" by auto
  from powi2_gap[OF l assms(2)] powi2_gap[OF assms(1) u] show ?thesis by linarith
qed

lemma fl_eval:
  assumes "2 powi e \<le> \<bar>q\<bar>" "\<bar>q\<bar> < 2 powi (e + 1)"
  shows "fl q =
        (let ulp = 2 powi (max e (- 1022) - 52);
            m = round_even (\<bar>q\<bar> / ulp);
            r = of_int m * ulp
        in if 2 powi 1024 \<le> r then (if 0 < q then PosInf else NegInf)
           else if m = 0 then (if 0 < q then Fin 0 else NegZero)
           else Fin (if 0 < q then r else - r))"
proof -
  have "q \<noteq> 0" using assms(1) by (metis abs_zero not_le zero_less_numeral zero_less_power_int)
  then show ?thesis by (simp add: fl_def binade_unique[OF assms])
qed


lemma floor_rat_numeral_div: "\<lfloor>numeral a / numeral b :: rat\<rfloor> = numeral a div numeral b"
  using floor_divide_of_int_eq[of "numeral a" "numeral b", where ?'a = rat] by simp

lemmas fl_simps = round_even_def Let_def floor_rat_numeral_div

section \<open>Digits\<close>







lemma nat_digits_nonempty: "nat_digits n \<noteq> []"
  by (subst nat_digits.simps) simp












section \<open>Evaluation at concrete values\<close>

lemma nat_digits_small: "n < 10 \<Longrightarrow> nat_digits n = [digit_char n]"
  by (subst nat_digits.simps) simp

lemma nat_digits_large: "10 \<le> n \<Longrightarrow> nat_digits n = nat_digits (n div 10) @ [digit_char (n mod 10)]"
  by (subst nat_digits.simps) simp

lemmas toFixed_simps =
  toFixed_def fixed_digits_def nearest_scaled_def nat_digits_small nat_digits_large
  digit_char_def floor_rat_numeral_div Let_def

lemmas fl_at =
  fl_eval[where e = "- 5"] fl_eval[where e = 0] fl_eval[where e = 2] fl_eval[where e = 6]

lemmas js_arith = js_sub_def js_add_def js_mul_def js_div_def signed_zero_def signed_inf_def

lemmas parse_simps =
  parseFloat_def Number_of_string_def trim_def is_space_def signed_value_def
  signed_zero_def signed_inf_def str_decimal_def is_digit_def digits_value_def digit_val_def
  exponent_part_def

lemma toFixed_examples:
  "toFixed H 2 (Fin 5) = ''5.00''"
  "toFixed H 2 (Fin (- 5)) = ''-5.00''"
  "toFixed H 2 (Fin 0) = ''0.00''"
  "toFixed H 2 (Fin (- 100)) = ''-100.00''"
  "toFixed H 2 (Fin (315 / 2)) = ''157.50''"
  "toFixed H 2 (Fin 150) = ''150.00''"
  by (simp_all add: toFixed_simps)

lemma percent_examples:
  "js_mul (js_div (js_sub (Fin (315 / 2)) (Fin 150)) (Fin 150)) (Fin 100) = Fin 5"
  "js_mul (js_div (js_sub (Fin 105) (Fin 100)) (Fin 100)) (Fin 100) = Fin 5"
  "js_mul (js_div (js_sub (Fin 95) (Fin 100)) (Fin 100)) (Fin 100) = Fin (- 5)"
  "js_mul (js_div (js_sub (Fin 0) (Fin 100)) (Fin 100)) (Fin 100) = Fin (- 100)"
  "js_mul (js_div (js_sub (Fin 5) (Fin 0)) (Fin 0)) (Fin 100) = PosInf"
  by (simp_all add: js_arith fl_at fl_simps)

lemma parse_examples:
  "parseFloat ''5.00'' = Fin 5"
  "parseFloat ''-5.00'' = Fin (- 5)"
  "parseFloat ''Infinity'' = PosInf"
  "parseFloat ''NaN'' = NaN"
  "Number_of_string ''0.00'' = Fin 0"
  by (simp_all add: parse_simps fl_at fl_simps)

section \<open>Tables read back\<close>

lemma read_column_json: "read_column (column_json cl) = Some cl"
  by (cases "col_width cl") (simp_all add: read_column_def column_json_def)

lemma those_read_columns: "those (map (read_column \<circ> column_json) cs) = Some cs"
  by (induction cs) (simp_all add: read_column_json)

lemma those_read_rows: "those (map (read_row \<circ> JObj) rs) = Some rs"
  by (induction rs) simp_all

lemma read_table_payload_inverse: "read_table_payload (table_payload cs rs) = Some (cs, rs)"
  by (simp add: read_table_payload_def table_payload_def those_read_columns those_read_rows)

section \<open>Outcomes of the handlers\<close>

lemma and_then_Inr: "and_then m f = Inr y \<longleftrightarrow> (\<exists>x. m = Inr x \<and> f x = Inr y)"
  by (cases m) simp_all

lemma and_then_Inl: "and_then m f = Inl e \<longleftrightarrow> m = Inl e \<or> (\<exists>x. m = Inr x \<and> f x = Inl e)"
  by (cases m) simp_all


lemma getStockPrice_respond_success:
  assumes "getStockPrice_respond H ticker rs = Inr env"
  obtains b rws close where "first_result rs = Some b" "price_rows H b = Inr rws"
    "method_toFixed H 2 (bar_c b) = Inr close"
    "env = \<lparr>env_text = price_summary ticker close (bar_changePercent H b),
            env_data = PriceData (price_data_of b (bar_changePercent H b)),
            env_ui = UINode ''div''
              (Some (JObj [(''title'', JStr (ticker @ '' Stock Price and Stats'')),
                           (''content'', JStr (price_summary ticker close (bar_changePercent H b)))]))
              (Some [UINode ''chart'' (Some (price_chartData H ticker rs (bar_changePercent H b))) None,
                     UINode ''table'' (Some (table_payload price_columns rws)) None])\<rparr>"
  using assms unfolding getStockPrice_respond_def
  by (auto simp: Let_def and_then_Inr split: option.splits)


lemma getStockPrice_built_respond_success:
  assumes "getStockPrice_built_respond H ticker rs = Inr env"
  obtains b rws close chartNode tableNode where "first_result rs = Some b"
    "price_rows H b = Inr rws" "method_toFixed H 2 (bar_c b) = Inr close"
    "chart_build (price_chartBuilder H ticker rs (bar_changePercent H b)) = Inr chartNode"
    "table_build (rows rws (addColumns built_columns TableUIBuilder)) = Inr tableNode"
    "env = \<lparr>env_text = price_summary ticker close (bar_changePercent H b),
            env_data = PriceData (price_data_of b (bar_changePercent H b)),
            env_ui = UINode ''card''
              (Some (JObj [(''title'', JStr (ticker @ '' Stock Price and Stats'')),
                           (''content'', JStr (price_summary ticker close (bar_changePercent H b)))]))
              (Some [chartNode, tableNode])\<rparr>"
  using assms unfolding getStockPrice_built_respond_def
  by (auto simp: Let_def and_then_Inr card_build_def addChild_def card_content_def card_title_def
        CardUIBuilder_def split: option.splits)

text \<open>The price tool at the scenario bar.\<close>

lemma scenario_percent:
  "bar_changePercent H (scenario_bar vw) = ''5.00''"
  "guarded_changePercent H (scenario_bar vw) = ''5.00''"
  by (simp_all add: bar_changePercent_def bar_change_def guarded_changePercent_def
        guarded_change_def scenario_bar_def percent_examples toFixed_examples)


lemma scenario_rows:
  "price_rows H (scenario_bar (Some w))
     = Inr [metric_row ''Volume'' (toLocaleString H (Fin 1000000)),
            metric_row ''Open'' ''$150.00'', metric_row ''High'' ''$158.00'',
            metric_row ''Low'' ''$149.00'', metric_row ''VWAP'' (''$'' @ toFixed H 2 w)]"
  "price_rows H (scenario_bar None) = Inl TypeError"
  by (simp_all add: price_rows_def scenario_bar_def toFixed_simps)

lemma scenario_daily:
  "getStockPrice_respond H ''AAPL'' (Some [scenario_bar (Some w)])
     = Inr \<lparr>env_text = price_summary ''AAPL'' ''157.50'' ''5.00'',
            env_data = PriceData (price_data_of (scenario_bar (Some w)) ''5.00''),
            env_ui = UINode ''div''
              (Some (JObj [(''title'', JStr ''AAPL Stock Price and Stats''),
                           (''content'', JStr (price_summary ''AAPL'' ''157.50'' ''5.00''))]))
              (Some [UINode ''chart''
                       (Some (price_chartData H ''AAPL'' (Some [scenario_bar (Some w)]) ''5.00'')) None,
                     UINode ''table''
                       (Some (table_payload price_columns
                          [metric_row ''Volume'' (toLocaleString H (Fin 1000000)),
                           metric_row ''Open'' ''$150.00'', metric_row ''High'' ''$158.00'',
                           metric_row ''Low'' ''$149.00'',
                           metric_row ''VWAP'' (''$'' @ toFixed H 2 w)])) None])\<rparr>"
  by (simp add: getStockPrice_respond_def first_result_def scenario_percent scenario_rows Let_def)
     (simp add: scenario_bar_def toFixed_examples)

lemma scenario_daily_missing:
  "getStockPrice_respond H ''AAPL'' (Some [scenario_bar None]) = Inl TypeError"
  "getStockPrice_built_respond H ''AAPL'' (Some [scenario_bar None]) = Inl TypeError"
  by (simp_all add: getStockPrice_respond_def getStockPrice_built_respond_def first_result_def
        scenario_rows Let_def)

lemma metric_cells:
  "table_cells ''metric''
     (UINode ''table'' (Some (table_payload cs
        [metric_row ''Volume'' a, metric_row ''Open'' b, metric_row ''High'' c,
         metric_row ''Low'' d, metric_row ''VWAP'' e])) ch)
   = Some [Some (JStr ''Volume''), Some (JStr ''Open''), Some (JStr ''High''),
           Some (JStr ''Low''), Some (JStr ''VWAP'')]"
  by (simp add: table_cells_def read_table_def read_table_payload_inverse metric_row_def)

lemma scenario_built:
  "getStockPrice_built_respond H ''AAPL'' (Some [scenario_bar (Some w)])
     = Inr \<lparr>env_text = price_summary ''AAPL'' ''157.50'' ''5.00'',
            env_data = PriceData (price_data_of (scenario_bar (Some w)) ''5.00''),
            env_ui = UINode ''card''
              (Some (JObj [(''title'', JStr ''AAPL Stock Price and Stats''),
                           (''content'', JStr (price_summary ''AAPL'' ''157.50'' ''5.00''))]))
              (Some [UINode ''chart''
                       (Some (chart_payload
                          (price_chartBuilder H ''AAPL'' (Some [scenario_bar (Some w)]) ''5.00'')))
                       (Some []),
                     UINode ''table''
                       (Some (table_payload built_columns
                          [metric_row ''Volume'' (toLocaleString H (Fin 1000000)),
                           metric_row ''Open'' ''$150.00'', metric_row ''High'' ''$158.00'',
                           metric_row ''Low'' ''$149.00'',
                           metric_row ''VWAP'' (''$'' @ toFixed H 2 w)])) (Some [])])\<rparr>"
proof -
  have c: "chart_build (price_chartBuilder H ''AAPL'' (Some [scenario_bar (Some w)]) ''5.00'')
           = Inr (UINode ''chart''
                    (Some (chart_payload
                       (price_chartBuilder H ''AAPL'' (Some [scenario_bar (Some w)]) ''5.00'')))
                    (Some []))"
    by (simp add: chart_build_def price_chartBuilder_def trend_def dataKeys_def chartData_def
          chart_description_def chart_title_def chart_type_def ChartUIBuilder_def has_key_def
          price_point_def scenario_bar_def)
  have t: "table_build (rows rws (addColumns built_columns TableUIBuilder))
           = Inr (UINode ''table'' (Some (table_payload built_columns rws)) (Some []))" for rws
    by (simp add: table_build_def rows_def addColumns_def TableUIBuilder_def built_columns_def)
  have m: "method_toFixed H 2 (bar_c (scenario_bar (Some w))) = Inr ''157.50''"
    by (simp add: scenario_bar_def toFixed_examples)
  show ?thesis
    by (simp add: getStockPrice_built_respond_def first_result_def scenario_percent scenario_rows
          Let_def c t m card_build_def addChild_def card_content_def card_title_def
          CardUIBuilder_def)
qed

lemma scenario_prev:
  "getStockPrice_prev_respond H ''AAPL'' (Some (scenario_bar vw)) hist
     = Inr \<lparr>env_text = price_summary ''AAPL'' ''157.50'' ''5.00'',
            env_data = PriceData
              \<lparr>pd_price = Fin (315 / 2), pd_high = Fin 158, pd_low = Fin 149,
               pd_volume = Fin 1000000, pd_change = Fin (15 / 2), pd_changePercent = Fin 5\<rparr>,
            env_ui = UINode ''div''
              (Some (JObj [(''title'', JStr ''AAPL Stock Price and Stats''),
                           (''content'', JStr (price_summary ''AAPL'' ''157.50'' ''5.00''))]))
              (Some [UINode ''chart'' (Some (intraday_chartData H ''AAPL'' hist ''5.00'')) None])\<rparr>"
proof -
  have g: "guarded_change (scenario_bar vw) = Fin (15 / 2)"
    by (simp add: guarded_change_def scenario_bar_def js_arith fl_at fl_simps)
  have o: "optional_toFixed H (bar_c (scenario_bar vw)) = ''157.50''"
    by (simp add: optional_toFixed_def scenario_bar_def toFixed_examples)
  have f: "nullish (bar_c (scenario_bar vw)) (Fin 0) = Fin (315 / 2)"
    "nullish (bar_h (scenario_bar vw)) (Fin 0) = Fin 158"
    "nullish (bar_l (scenario_bar vw)) (Fin 0) = Fin 149"
    "nullish (bar_v (scenario_bar vw)) (Fin 0) = Fin 1000000"
    by (simp_all add: scenario_bar_def)
  show ?thesis
    by (simp add: getStockPrice_prev_respond_def scenario_percent Let_def g o f parse_examples)
qed



section \<open>Failures at the dispatcher\<close>

lemma failure_envelope_shape:
  "env_text (failure_envelope m) = m"
  "env_data (failure_envelope m) = DataNull"
  "ui_type (env_ui (failure_envelope m)) = ''alert''"
  by (simp_all add: failure_envelope_def alert_build_def)

lemma invoke_failure:
  "validate raw = Inr i \<Longrightarrow> snd (handler i) = Inl e \<Longrightarrow>
   snd (invoke describe validate handler raw) = failure_envelope (describe e)"
  by (cases "handler i") (simp add: invoke_def)



lemma no_bars_daily:
  "first_result rs = None \<Longrightarrow>
   getStockPrice_respond H ticker rs = Inl (Error (''No data available for '' @ ticker))"
  "first_result rs = None \<Longrightarrow>
   getStockPrice_built_respond H ticker rs = Inl (Error (''No data available for '' @ ticker))"
  by (simp_all add: getStockPrice_respond_def getStockPrice_built_respond_def)

lemma no_bars_prev:
  assumes "first_result rs = None" "previousClose cl ticker = Inr rs"
  shows "\<exists>e. snd (getStockPrice_prev H cl ticker) = Inl e"
proof (cases rs)
  case None
  then show ?thesis using assms by (simp add: getStockPrice_prev_def index_first_def)
next
  case (Some xs)
  with assms have f: "and_then (previousClose cl ticker) index_first = Inr None"
    by (simp add: index_first_def)
  show ?thesis
    by (cases "aggregates cl (intraday_query H ticker)")
       (simp_all add: getStockPrice_prev_def f getStockPrice_prev_respond_def)
qed

section \<open>Outcomes of the widget\<close>



lemma overview_failure_shape:
  "env_text overview_failure = ''Failed to load market overview''"
  "env_data overview_failure = DataNull"
  "ui_type (env_ui overview_failure) = ''p''"
  "env_text built_overview_failure = ''Failed to load market overview''"
  "env_data built_overview_failure = DataNull"
  "ui_type (env_ui built_overview_failure) = ''alert''"
  by (simp_all add: overview_failure_def built_overview_failure_def alert_build_def)

lemma index_lookups_resolved:
  assumes "previousClose cl ''DIA'' = Inr r0" "previousClose cl ''SPY'' = Inr r1"
    "previousClose cl ''QQQ'' = Inr r2" "previousClose cl ''IWM'' = Inr r3"
  shows "index_lookups H cl
         = Inr [index_entry H ''Dow Jones'' r0, index_entry H ''S&P 500'' r1,
                index_entry H ''NASDAQ'' r2, index_entry H ''Russell 2000'' r3]"
  using assms by (simp add: index_lookups_def indices_def)

lemma index_requests_sent:
  "index_requests
     = [PreviousClose ''DIA'', PreviousClose ''SPY'', PreviousClose ''QQQ'', PreviousClose ''IWM'']"
  by (simp add: index_requests_def indices_def)

lemma built_overview_chart_build:
  "chart_build (built_overview_chart results)
     = Inr (UINode ''chart'' (Some (chart_payload (built_overview_chart results))) (Some []))"
  by (cases "filter (\<lambda>r. ix_price r \<noteq> ''N/A'') results")
     (simp_all add: chart_build_def built_overview_chart_def dataKeys_def chartData_def
        chart_description_def chart_title_def chart_type_def ChartUIBuilder_def has_key_def
        index_point_def)

lemma built_overview_success_value:
  "built_overview_success H results
     = Inr \<lparr>env_text = overview_text results,
            env_data = OverviewData results,
            env_ui = UINode ''card'' (Some (JObj []))
              (Some [UINode ''table''
                       (Some (table_payload built_overview_columns
                                (map (built_overview_row H) results))) (Some []),
                     UINode ''chart'' (Some (chart_payload (built_overview_chart results)))
                       (Some [])])\<rparr>"
  by (simp add: built_overview_success_def built_overview_chart_build table_build_def rows_def
        addColumns_def TableUIBuilder_def built_overview_columns_def card_build_def addChild_def
        CardUIBuilder_def)

lemma placeholder_entry:
  "first_result r = None \<Longrightarrow>
   index_entry H name r
     = \<lparr>ix_name = name, ix_price = ''N/A'', ix_change = ''0.00'', ix_changePercent = ''0.00'',
        ix_isPositive = True\<rparr>"
  by (simp add: index_entry_def)

lemma placeholder_rows:
  "overview_row H \<lparr>ix_name = name, ix_price = ''N/A'', ix_change = ''0.00'',
                  ix_changePercent = ''0.00'', ix_isPositive = True\<rparr>
     = [(''name'', JStr name), (''price'', JStr ''N/A''),
        (''change'', JStr (''+$'' @ toLocaleFixed2 H (Fin 0))),
        (''changePercent'', JStr (''+'' @ toLocaleFixed2 H (Fin 0) @ ''%'')),
        (''style'', JObj [(''change'', JObj [(''color'', JStr ''#22C55E'')]),
                          (''changePercent'', JObj [(''color'', JStr ''#22C55E'')])])]"
  "built_overview_row H \<lparr>ix_name = name, ix_price = ''N/A'', ix_change = ''0.00'',
                  ix_changePercent = ''0.00'', ix_isPositive = True\<rparr>
     = [(''name'', JStr name), (''price'', JStr ''N/A''),
        (''change'', JStr (''+$'' @ toLocaleFixed2 H (Fin 0))),
        (''changePercent'', JStr (''+'' @ toLocaleFixed2 H (Fin 0) @ ''%''))]"
  by (simp_all add: overview_row_def built_overview_row_def overview_price_def
        overview_change_def overview_percent_def sign_prefix_def trend_colour_def parse_examples)

section \<open>Failures are answered with an envelope\<close>




section \<open>The denominator of the percent change\<close>

lemma js_sub_NaN: "js_sub x NaN = NaN"
  by (simp add: js_sub_def js_add_def)

lemma js_div_NaN: "js_div NaN y = NaN"
  by (simp add: js_div_def)

lemma js_mul_NaN: "js_mul NaN y = NaN"
  by (simp add: js_mul_def)

lemma js_div_zero: "js_div x (Fin 0) = NaN \<or> js_div x (Fin 0) = PosInf \<or> js_div x (Fin 0) = NegInf"
  by (cases x) (simp_all add: js_div_def signed_inf_def)

lemma js_mul_hundred:
  "js_mul NaN (Fin 100) = NaN" "js_mul PosInf (Fin 100) = PosInf" "js_mul NegInf (Fin 100) = NegInf"
  by (simp_all add: js_mul_def signed_inf_def)

lemma percent_by_zero:
  "toFixed H 2 (js_mul (js_div x (Fin 0)) (Fin 100)) \<in> set [''NaN'', ''Infinity'', ''-Infinity'']"
  using js_div_zero[of x] by (auto simp: js_mul_hundred toFixed_def)

text \<open>
  Claim C2, as amended. The previous-close price tool and the market-overview widget
  divide the change by \<open>open ?? 1\<close>: the denominator is 1 when \<open>open\<close> is
  absent, and \<open>open\<close> itself, zero included, when it is present. The
  daily-aggregates price tool divides by \<open>open\<close> as it is. The text of the percent
  change is always defined, but it does not always denote a finite number. With an
  absent \<open>open\<close> it is \<open>0.00\<close> when \<open>close\<close> is zero, NaN or absent
  (the change is then taken as 0) and \<open>NaN\<close> otherwise; in the daily-aggregates tool it is
  always \<open>NaN\<close>. With an \<open>open\<close> of zero it is \<open>NaN\<close>,
  \<open>Infinity\<close> or \<open>-Infinity\<close>.
\<close>

theorem guarded_percent_change:
  "guarded_changePercent H b
     = toFixed H 2 (js_mul (js_div (guarded_change b)
                              (case bar_o b of None \<Rightarrow> Fin 1 | Some ov \<Rightarrow> ov)) (Fin 100))
   \<and> guarded_changePercent H (b\<lparr>bar_o := None\<rparr>) = (if truthy (bar_c b) then ''NaN'' else ''0.00'')
   \<and> guarded_changePercent H (b\<lparr>bar_o := Some (Fin 0)\<rparr>) \<in> set [''NaN'', ''Infinity'', ''-Infinity'']
   \<and> bar_changePercent H b
     = toFixed H 2 (js_mul (js_div (bar_change b) (to_number (bar_o b))) (Fin 100))
   \<and> bar_changePercent H (b\<lparr>bar_o := None\<rparr>) = ''NaN''
   \<and> bar_changePercent H (b\<lparr>bar_o := Some (Fin 0)\<rparr>) \<in> set [''NaN'', ''Infinity'', ''-Infinity'']
   \<and> ix_changePercent (index_entry H name (Some (b # bs))) = guarded_changePercent H b
   \<and> guarded_change (b\<lparr>bar_c := Some (Fin 0)\<rparr>) = Fin 0
   \<and> guarded_change (b\<lparr>bar_c := None\<rparr>) = Fin 0"
proof (intro conjI)
  show "guarded_changePercent H b
     = toFixed H 2 (js_mul (js_div (guarded_change b)
                              (case bar_o b of None \<Rightarrow> Fin 1 | Some ov \<Rightarrow> ov)) (Fin 100))"
    by (cases "bar_o b") (simp_all add: guarded_changePercent_def)
  show "guarded_changePercent H (b\<lparr>bar_o := None\<rparr>) = (if truthy (bar_c b) then ''NaN'' else ''0.00'')"
  proof (cases "truthy (bar_c b)")
    case True
    then show ?thesis
      by (simp add: guarded_changePercent_def guarded_change_def js_sub_NaN js_div_NaN js_mul_NaN
            toFixed_def)
  next
    case False
    have "js_mul (js_div (Fin 0) (Fin 1)) (Fin 100) = Fin 0"
      by (simp add: js_div_def js_mul_def signed_zero_def)
    with False show ?thesis
      by (simp add: guarded_changePercent_def guarded_change_def toFixed_examples)
  qed
  show "guarded_changePercent H (b\<lparr>bar_o := Some (Fin 0)\<rparr>) \<in> set [''NaN'', ''Infinity'', ''-Infinity'']"
    unfolding guarded_changePercent_def using percent_by_zero by simp
  show "bar_changePercent H b
     = toFixed H 2 (js_mul (js_div (bar_change b) (to_number (bar_o b))) (Fin 100))"
    by (simp add: bar_changePercent_def)
  show "bar_changePercent H (b\<lparr>bar_o := None\<rparr>) = ''NaN''"
    by (simp add: bar_changePercent_def bar_change_def js_sub_NaN js_div_NaN js_mul_NaN toFixed_def)
  show "bar_changePercent H (b\<lparr>bar_o := Some (Fin 0)\<rparr>) \<in> set [''NaN'', ''Infinity'', ''-Infinity'']"
    unfolding bar_changePercent_def using percent_by_zero by simp
  show "ix_changePercent (index_entry H name (Some (b # bs))) = guarded_changePercent H b"
    by (simp add: index_entry_def first_result_def)
  show "guarded_change (b\<lparr>bar_c := Some (Fin 0)\<rparr>) = Fin 0"
    by (simp add: guarded_change_def)
  show "guarded_change (b\<lparr>bar_c := None\<rparr>) = Fin 0"
    by (simp add: guarded_change_def)
qed

text \<open>
  The claim as it was stated fails at a bar that opens at 0 and closes at 5: the
  denominator is 0, not 1, and the percent change is \<open>Infinity\<close>. It also fails at
  a bar with no \<open>open\<close>: the denominator is 1 where there is a guard, and the
  percent change is \<open>NaN\<close>.
\<close>

theorem zero_open_is_divided_by:
  "nullish (bar_o (open_close (Some (Fin 0)) (Some (Fin 5)))) (Fin 1) = Fin 0
   \<and> guarded_changePercent plain_host (open_close (Some (Fin 0)) (Some (Fin 5))) = ''Infinity''
   \<and> bar_changePercent plain_host (open_close (Some (Fin 0)) (Some (Fin 5))) = ''Infinity''
   \<and> ix_changePercent (index_entry plain_host ''S&P 500''
        (Some [open_close (Some (Fin 0)) (Some (Fin 5))])) = ''Infinity''
   \<and> parseFloat ''Infinity'' = PosInf
   \<and> is_finite PosInf = False
   \<and> guarded_changePercent plain_host (open_close None (Some (Fin 5))) = ''NaN''
   \<and> bar_changePercent plain_host (open_close None (Some (Fin 5))) = ''NaN''"
  by (simp add: open_close_def guarded_changePercent_def guarded_change_def bar_changePercent_def
        bar_change_def index_entry_def first_result_def percent_examples parse_examples
        js_sub_NaN js_div_NaN js_mul_NaN toFixed_def)

section \<open>The percent change\<close>



section \<open>No bars for the symbol\<close>

text \<open>
  Claim C4. When the provider returns no bar for the requested symbol, the handler of
  the price tool fails: the daily-aggregates variants throw
  \<open>No data available for <ticker>\<close>, the previous-close variant throws on reading
  the bar that is not there. The dispatcher answers a failed handler with the failure
  envelope: \<open>data\<close> is \<open>null\<close> and the \<open>ui\<close> node is an \<open>alert\<close>. What
  the caller receives is that envelope, not the fault.
\<close>

theorem no_bars_is_an_error_envelope:
  "(first_result rs = None \<and> validate raw = Inr ticker \<and> aggregates cl (daily_query H ticker) = Inr rs
      \<longrightarrow> snd (getStockPrice H cl ticker) = Inl (Error (''No data available for '' @ ticker))
        \<and> snd (invoke describe validate (getStockPrice H cl) raw)
            = failure_envelope (describe (Error (''No data available for '' @ ticker)))
        \<and> snd (getStockPrice_built H cl ticker) = Inl (Error (''No data available for '' @ ticker))
        \<and> snd (invoke describe validate (getStockPrice_built H cl) raw)
            = failure_envelope (describe (Error (''No data available for '' @ ticker))))
   \<and> (first_result rs = None \<and> validate raw = Inr ticker \<and> previousClose cl ticker = Inr rs
      \<longrightarrow> (\<exists>e. snd (getStockPrice_prev H cl ticker) = Inl e
              \<and> snd (invoke describe validate (getStockPrice_prev H cl) raw)
                  = failure_envelope (describe e)))
   \<and> env_data (failure_envelope m) = DataNull
   \<and> ui_type (env_ui (failure_envelope m)) = ''alert''"
proof (intro conjI impI)
  assume a: "first_result rs = None \<and> validate raw = Inr ticker
             \<and> aggregates cl (daily_query H ticker) = Inr rs"
  then show d: "snd (getStockPrice H cl ticker) = Inl (Error (''No data available for '' @ ticker))"
    by (simp add: getStockPrice_def no_bars_daily)
  from a show b: "snd (getStockPrice_built H cl ticker) = Inl (Error (''No data available for '' @ ticker))"
    by (simp add: getStockPrice_built_def no_bars_daily)
  from a d show "snd (invoke describe validate (getStockPrice H cl) raw)
            = failure_envelope (describe (Error (''No data available for '' @ ticker)))"
    by (simp add: invoke_failure)
  from a b show "snd (invoke describe validate (getStockPrice_built H cl) raw)
            = failure_envelope (describe (Error (''No data available for '' @ ticker)))"
    by (simp add: invoke_failure)
next
  assume a: "first_result rs = None \<and> validate raw = Inr ticker \<and> previousClose cl ticker = Inr rs"
  then obtain e where "snd (getStockPrice_prev H cl ticker) = Inl e"
    using no_bars_prev by blast
  with a show "\<exists>e. snd (getStockPrice_prev H cl ticker) = Inl e
              \<and> snd (invoke describe validate (getStockPrice_prev H cl) raw)
                  = failure_envelope (describe e)"
    by (auto simp: invoke_failure)
qed (simp_all add: failure_envelope_shape)

theorem no_bars_is_an_error_envelope_witness:
  "first_result (Some ([] :: bar list)) = None
   \<and> (Inr ''ZZZZ'' :: string + string) = Inr ''ZZZZ''
   \<and> aggregates (serving (\<lambda>t. Some []) (Inr (Some []))) (daily_query plain_host ''ZZZZ'') = Inr (Some [])
   \<and> previousClose (serving (\<lambda>t. Some []) (Inr (Some []))) ''ZZZZ'' = Inr (Some [])
   \<and> snd (getStockPrice plain_host (serving (\<lambda>t. Some []) (Inr (Some []))) ''ZZZZ'')
       = Inl (Error ''No data available for ZZZZ'')
   \<and> env_data (snd (invoke (\<lambda>e. ''The request failed'') Inr
         (getStockPrice plain_host (serving (\<lambda>t. Some []) (Inr (Some [])))) ''ZZZZ'')) = DataNull
   \<and> ui_type (env_ui (snd (invoke (\<lambda>e. ''The request failed'') Inr
         (getStockPrice plain_host (serving (\<lambda>t. Some []) (Inr (Some [])))) ''ZZZZ''))) = ''alert''
   \<and> env_data (snd (invoke (\<lambda>e. ''The request failed'') Inr
         (getStockPrice_prev plain_host (serving (\<lambda>t. Some []) (Inr (Some [])))) ''ZZZZ'')) = DataNull
   \<and> ui_type (env_ui (snd (invoke (\<lambda>e. ''The request failed'') Inr
         (getStockPrice_prev plain_host (serving (\<lambda>t. Some []) (Inr (Some [])))) ''ZZZZ''))) = ''alert''"
proof -
  have h: "first_result (Some ([] :: bar list)) = None
     \<and> (Inr ''ZZZZ'' :: string + string) = Inr ''ZZZZ''
     \<and> aggregates (serving (\<lambda>t. Some []) (Inr (Some []))) (daily_query plain_host ''ZZZZ'') = Inr (Some [])"
    by (simp add: first_result_def serving_def)
  have p: "first_result (Some ([] :: bar list)) = None
     \<and> (Inr ''ZZZZ'' :: string + string) = Inr ''ZZZZ''
     \<and> previousClose (serving (\<lambda>t. Some []) (Inr (Some []))) ''ZZZZ'' = Inr (Some [])"
    by (simp add: first_result_def serving_def)
  from no_bars_is_an_error_envelope[of "Some []" Inr "''ZZZZ''" "''ZZZZ''"
      "serving (\<lambda>t. Some []) (Inr (Some []))" plain_host "\<lambda>e. ''The request failed''"
      "''The request failed''"] h p
  show ?thesis
    by (auto simp: failure_envelope_shape)
qed

section \<open>The overview with an index missing\<close>

text \<open>
  Claim C5, as amended. The widget sends its four index look-ups whatever happens to
  any of them. When all four resolve, with data or with no data, and, in the variant
  that writes its nodes out, the request for the 30-day history resolves as well, the
  widget answers with a success envelope: the data holds four results and the first
  child of the root is a table with exactly four rows, one per index in the order of
  \<open>indices\<close>. An index whose look-up returned no data has the placeholder result
  (price \<open>N/A\<close>, change \<open>0.00\<close>, percent \<open>0.00\<close>, positive), and its row shows
  \<open>N/A\<close> and a zero change.
\<close>

theorem overview_with_a_missing_index:
  "(previousClose cl ''DIA'' = Inr r0 \<and> previousClose cl ''SPY'' = Inr r1
      \<and> previousClose cl ''QQQ'' = Inr r2 \<and> previousClose cl ''IWM'' = Inr r3
      \<and> aggregates cl (history_query H) = Inr history
      \<longrightarrow> fst (getMarketOverviewWidget H cl)
            = [PreviousClose ''DIA'', PreviousClose ''SPY'', PreviousClose ''QQQ'',
               PreviousClose ''IWM'', Aggregates (history_query H)]
        \<and> env_data (snd (getMarketOverviewWidget H cl))
            = OverviewData [index_entry H ''Dow Jones'' r0, index_entry H ''S&P 500'' r1,
                            index_entry H ''NASDAQ'' r2, index_entry H ''Russell 2000'' r3]
        \<and> ui_type (env_ui (snd (getMarketOverviewWidget H cl))) = ''div''
        \<and> read_table (hd (child_nodes (env_ui (snd (getMarketOverviewWidget H cl)))))
            = Some (overview_columns,
                    [overview_row H (index_entry H ''Dow Jones'' r0),
                     overview_row H (index_entry H ''S&P 500'' r1),
                     overview_row H (index_entry H ''NASDAQ'' r2),
                     overview_row H (index_entry H ''Russell 2000'' r3)]))
   \<and> (previousClose cl ''DIA'' = Inr r0 \<and> previousClose cl ''SPY'' = Inr r1
      \<and> previousClose cl ''QQQ'' = Inr r2 \<and> previousClose cl ''IWM'' = Inr r3
      \<longrightarrow> fst (getMarketOverviewWidget_built H cl)
            = [PreviousClose ''DIA'', PreviousClose ''SPY'', PreviousClose ''QQQ'',
               PreviousClose ''IWM'']
        \<and> env_data (snd (getMarketOverviewWidget_built H cl))
            = OverviewData [index_entry H ''Dow Jones'' r0, index_entry H ''S&P 500'' r1,
                            index_entry H ''NASDAQ'' r2, index_entry H ''Russell 2000'' r3]
        \<and> ui_type (env_ui (snd (getMarketOverviewWidget_built H cl))) = ''card''
        \<and> read_table (hd (child_nodes (env_ui (snd (getMarketOverviewWidget_built H cl)))))
            = Some (built_overview_columns,
                    [built_overview_row H (index_entry H ''Dow Jones'' r0),
                     built_overview_row H (index_entry H ''S&P 500'' r1),
                     built_overview_row H (index_entry H ''NASDAQ'' r2),
                     built_overview_row H (index_entry H ''Russell 2000'' r3)]))
   \<and> (first_result r = None
      \<longrightarrow> index_entry H name r
            = \<lparr>ix_name = name, ix_price = ''N/A'', ix_change = ''0.00'',
               ix_changePercent = ''0.00'', ix_isPositive = True\<rparr>
        \<and> overview_row H (index_entry H name r)
            = [(''name'', JStr name), (''price'', JStr ''N/A''),
               (''change'', JStr (''+$'' @ toLocaleFixed2 H (Fin 0))),
               (''changePercent'', JStr (''+'' @ toLocaleFixed2 H (Fin 0) @ ''%'')),
               (''style'', JObj [(''change'', JObj [(''color'', JStr ''#22C55E'')]),
                                 (''changePercent'', JObj [(''color'', JStr ''#22C55E'')])])]
        \<and> built_overview_row H (index_entry H name r)
            = [(''name'', JStr name), (''price'', JStr ''N/A''),
               (''change'', JStr (''+$'' @ toLocaleFixed2 H (Fin 0))),
               (''changePercent'', JStr (''+'' @ toLocaleFixed2 H (Fin 0) @ ''%''))])
   \<and> fst (getMarketOverviewWidget_built H cl)
        = [PreviousClose ''DIA'', PreviousClose ''SPY'', PreviousClose ''QQQ'',
           PreviousClose ''IWM'']
   \<and> take 4 (fst (getMarketOverviewWidget H cl))
        = [PreviousClose ''DIA'', PreviousClose ''SPY'', PreviousClose ''QQQ'',
           PreviousClose ''IWM'']"
proof (intro conjI impI)
  assume a: "previousClose cl ''DIA'' = Inr r0 \<and> previousClose cl ''SPY'' = Inr r1
      \<and> previousClose cl ''QQQ'' = Inr r2 \<and> previousClose cl ''IWM'' = Inr r3
      \<and> aggregates cl (history_query H) = Inr history"
  then have l: "index_lookups H cl
         = Inr [index_entry H ''Dow Jones'' r0, index_entry H ''S&P 500'' r1,
                index_entry H ''NASDAQ'' r2, index_entry H ''Russell 2000'' r3]"
    by (simp add: index_lookups_resolved)
  from a have h: "aggregates cl (history_query H) = Inr history" by simp
  show "fst (getMarketOverviewWidget H cl)
            = [PreviousClose ''DIA'', PreviousClose ''SPY'', PreviousClose ''QQQ'',
               PreviousClose ''IWM'', Aggregates (history_query H)]"
    by (simp add: getMarketOverviewWidget_def l h index_requests_sent)
  show "env_data (snd (getMarketOverviewWidget H cl))
            = OverviewData [index_entry H ''Dow Jones'' r0, index_entry H ''S&P 500'' r1,
                            index_entry H ''NASDAQ'' r2, index_entry H ''Russell 2000'' r3]"
    by (simp add: getMarketOverviewWidget_def l h)
  show "ui_type (env_ui (snd (getMarketOverviewWidget H cl))) = ''div''"
    by (simp add: getMarketOverviewWidget_def l h)
  show "read_table (hd (child_nodes (env_ui (snd (getMarketOverviewWidget H cl)))))
            = Some (overview_columns,
                    [overview_row H (index_entry H ''Dow Jones'' r0),
                     overview_row H (index_entry H ''S&P 500'' r1),
                     overview_row H (index_entry H ''NASDAQ'' r2),
                     overview_row H (index_entry H ''Russell 2000'' r3)])"
    by (simp add: getMarketOverviewWidget_def l h overview_children_def read_table_def
          read_table_payload_inverse)
next
  assume a: "previousClose cl ''DIA'' = Inr r0 \<and> previousClose cl ''SPY'' = Inr r1
      \<and> previousClose cl ''QQQ'' = Inr r2 \<and> previousClose cl ''IWM'' = Inr r3"
  then have l: "index_lookups H cl
         = Inr [index_entry H ''Dow Jones'' r0, index_entry H ''S&P 500'' r1,
                index_entry H ''NASDAQ'' r2, index_entry H ''Russell 2000'' r3]"
    by (simp add: index_lookups_resolved)
  show "env_data (snd (getMarketOverviewWidget_built H cl))
            = OverviewData [index_entry H ''Dow Jones'' r0, index_entry H ''S&P 500'' r1,
                            index_entry H ''NASDAQ'' r2, index_entry H ''Russell 2000'' r3]"
    by (simp add: getMarketOverviewWidget_built_def l built_overview_success_value)
  show "ui_type (env_ui (snd (getMarketOverviewWidget_built H cl))) = ''card''"
    by (simp add: getMarketOverviewWidget_built_def l built_overview_success_value)
  show "read_table (hd (child_nodes (env_ui (snd (getMarketOverviewWidget_built H cl)))))
            = Some (built_overview_columns,
                    [built_overview_row H (index_entry H ''Dow Jones'' r0),
                     built_overview_row H (index_entry H ''S&P 500'' r1),
                     built_overview_row H (index_entry H ''NASDAQ'' r2),
                     built_overview_row H (index_entry H ''Russell 2000'' r3)])"
    by (simp add: getMarketOverviewWidget_built_def l built_overview_success_value read_table_def
          read_table_payload_inverse)
next
  assume "first_result r = None"
  then show "index_entry H name r
            = \<lparr>ix_name = name, ix_price = ''N/A'', ix_change = ''0.00'',
               ix_changePercent = ''0.00'', ix_isPositive = True\<rparr>"
    and "overview_row H (index_entry H name r)
            = [(''name'', JStr name), (''price'', JStr ''N/A''),
               (''change'', JStr (''+$'' @ toLocaleFixed2 H (Fin 0))),
               (''changePercent'', JStr (''+'' @ toLocaleFixed2 H (Fin 0) @ ''%'')),
               (''style'', JObj [(''change'', JObj [(''color'', JStr ''#22C55E'')]),
                                 (''changePercent'', JObj [(''color'', JStr ''#22C55E'')])])]"
    and "built_overview_row H (index_entry H name r)
            = [(''name'', JStr name), (''price'', JStr ''N/A''),
               (''change'', JStr (''+$'' @ toLocaleFixed2 H (Fin 0))),
               (''changePercent'', JStr (''+'' @ toLocaleFixed2 H (Fin 0) @ ''%''))]"
    by (simp_all add: placeholder_entry placeholder_rows)
next
  show "take 4 (fst (getMarketOverviewWidget H cl))
        = [PreviousClose ''DIA'', PreviousClose ''SPY'', PreviousClose ''QQQ'',
           PreviousClose ''IWM'']"
    by (simp add: getMarketOverviewWidget_def index_requests_sent split: sum.splits)
qed (simp_all add: getMarketOverviewWidget_built_def index_requests_sent)

theorem overview_with_a_missing_index_witness:
  "previousClose (serving three_of_four (Inr (Some []))) ''DIA''
     = Inr (Some [open_close (Some (Fin 100)) (Some (Fin 105))])
   \<and> previousClose (serving three_of_four (Inr (Some []))) ''SPY''
     = Inr (Some [open_close (Some (Fin 100)) (Some (Fin 105))])
   \<and> previousClose (serving three_of_four (Inr (Some []))) ''QQQ'' = Inr (Some [])
   \<and> previousClose (serving three_of_four (Inr (Some []))) ''IWM''
     = Inr (Some [open_close (Some (Fin 100)) (Some (Fin 105))])
   \<and> aggregates (serving three_of_four (Inr (Some []))) (history_query plain_host) = Inr (Some [])
   \<and> first_result (Some ([] :: bar list)) = None
   \<and> ui_type (env_ui (snd (getMarketOverviewWidget plain_host (serving three_of_four (Inr (Some []))))))
       = ''div''
   \<and> ui_type (env_ui (snd (getMarketOverviewWidget_built plain_host
         (serving three_of_four (Inr (Some [])))))) = ''card''
   \<and> map_option (length \<circ> snd)
        (read_table (hd (child_nodes (env_ui (snd (getMarketOverviewWidget plain_host
           (serving three_of_four (Inr (Some [])))))))))
       = Some 4
   \<and> map_option (\<lambda>t. snd t ! 2)
        (read_table (hd (child_nodes (env_ui (snd (getMarketOverviewWidget plain_host
           (serving three_of_four (Inr (Some [])))))))))
       = Some [(''name'', JStr ''NASDAQ''), (''price'', JStr ''N/A''),
               (''change'', JStr ''+$<number>''), (''changePercent'', JStr ''+<number>%''),
               (''style'', JObj [(''change'', JObj [(''color'', JStr ''#22C55E'')]),
                                 (''changePercent'', JObj [(''color'', JStr ''#22C55E'')])])]"
proof -
  have h: "previousClose (serving three_of_four (Inr (Some []))) ''DIA''
             = Inr (Some [open_close (Some (Fin 100)) (Some (Fin 105))])
     \<and> previousClose (serving three_of_four (Inr (Some []))) ''SPY''
             = Inr (Some [open_close (Some (Fin 100)) (Some (Fin 105))])
     \<and> previousClose (serving three_of_four (Inr (Some []))) ''QQQ'' = Inr (Some [])
     \<and> previousClose (serving three_of_four (Inr (Some []))) ''IWM''
             = Inr (Some [open_close (Some (Fin 100)) (Some (Fin 105))])"
    by (simp add: serving_def three_of_four_def)
  have g: "aggregates (serving three_of_four (Inr (Some []))) (history_query plain_host) = Inr (Some [])"
    by (simp add: serving_def)
  have f: "first_result (Some ([] :: bar list)) = None"
    by (simp add: first_result_def)
  note T = overview_with_a_missing_index[of "serving three_of_four (Inr (Some []))"
      "Some [open_close (Some (Fin 100)) (Some (Fin 105))]"
      "Some [open_close (Some (Fin 100)) (Some (Fin 105))]" "Some []"
      "Some [open_close (Some (Fin 100)) (Some (Fin 105))]" plain_host "Some []" "Some []"
      "''NASDAQ''"]
  from T h g have u: "ui_type (env_ui (snd (getMarketOverviewWidget plain_host
        (serving three_of_four (Inr (Some [])))))) = ''div''"
    by blast
  from T h g have rt: "read_table (hd (child_nodes (env_ui (snd (getMarketOverviewWidget plain_host
        (serving three_of_four (Inr (Some []))))))))
      = Some (overview_columns,
              [overview_row plain_host (index_entry plain_host ''Dow Jones''
                 (Some [open_close (Some (Fin 100)) (Some (Fin 105))])),
               overview_row plain_host (index_entry plain_host ''S&P 500''
                 (Some [open_close (Some (Fin 100)) (Some (Fin 105))])),
               overview_row plain_host (index_entry plain_host ''NASDAQ'' (Some [])),
               overview_row plain_host (index_entry plain_host ''Russell 2000''
                 (Some [open_close (Some (Fin 100)) (Some (Fin 105))]))])"
    by blast
  from T h have b: "ui_type (env_ui (snd (getMarketOverviewWidget_built plain_host
        (serving three_of_four (Inr (Some [])))))) = ''card''"
    by blast
  from T f have ph: "overview_row plain_host (index_entry plain_host ''NASDAQ'' (Some []))
      = [(''name'', JStr ''NASDAQ''), (''price'', JStr ''N/A''),
         (''change'', JStr (''+$'' @ toLocaleFixed2 plain_host (Fin 0))),
         (''changePercent'', JStr (''+'' @ toLocaleFixed2 plain_host (Fin 0) @ ''%'')),
         (''style'', JObj [(''change'', JObj [(''color'', JStr ''#22C55E'')]),
                           (''changePercent'', JObj [(''color'', JStr ''#22C55E'')])])]"
    by blast
  have lf: "toLocaleFixed2 plain_host (Fin 0) = ''<number>''"
    by (simp add: plain_host_def)
  show ?thesis
    using h g f u b by (simp add: rt ph lf)
qed

text \<open>
  The claim as it was stated promises a success envelope from the four look-ups alone.
  In the variant that writes its nodes out, three look-ups with data and one without
  still end in the failure envelope when the history request that follows is rejected.
\<close>

theorem overview_fails_with_its_history:
  "previousClose (serving three_of_four (Inl (Error ''Too Many Requests''))) ''DIA''
     = Inr (Some [open_close (Some (Fin 100)) (Some (Fin 105))])
   \<and> previousClose (serving three_of_four (Inl (Error ''Too Many Requests''))) ''SPY''
     = Inr (Some [open_close (Some (Fin 100)) (Some (Fin 105))])
   \<and> previousClose (serving three_of_four (Inl (Error ''Too Many Requests''))) ''QQQ'' = Inr (Some [])
   \<and> previousClose (serving three_of_four (Inl (Error ''Too Many Requests''))) ''IWM''
     = Inr (Some [open_close (Some (Fin 100)) (Some (Fin 105))])
   \<and> snd (getMarketOverviewWidget plain_host (serving three_of_four (Inl (Error ''Too Many Requests''))))
     = overview_failure
   \<and> env_data overview_failure = DataNull"
  by (simp add: getMarketOverviewWidget_def index_lookups_def indices_def serving_def
        three_of_four_def overview_failure_shape)

section \<open>Defaults of the optional inputs\<close>

text \<open>
  Claim C6. When \<open>limit\<close> is omitted, the news tool asks the provider for 5
  items, the dividends tool for 10 and the splits tool for 5: the handler sends exactly
  one request, and it carries the default. Omitting \<open>limit\<close> is the same
  invocation as passing the default, and a \<open>limit\<close> that is given is passed on as
  it is.
\<close>

theorem limit_defaults:
  "fst (getStockNews H cl \<lparr>in_ticker = t, in_limit = None\<rparr>)
     = [TickerNews \<lparr>lq_ticker = t, lq_limit = Fin 5\<rparr>]
   \<and> fst (getStockDividends H cl \<lparr>in_ticker = t, in_limit = None\<rparr>)
     = [Dividends \<lparr>lq_ticker = t, lq_limit = Fin 10\<rparr>]
   \<and> fst (getStockSplits H cl \<lparr>in_ticker = t, in_limit = None\<rparr>)
     = [StockSplits \<lparr>lq_ticker = t, lq_limit = Fin 5\<rparr>]
   \<and> getStockNews H cl \<lparr>in_ticker = t, in_limit = None\<rparr>
     = getStockNews H cl \<lparr>in_ticker = t, in_limit = Some (Fin 5)\<rparr>
   \<and> getStockDividends H cl \<lparr>in_ticker = t, in_limit = None\<rparr>
     = getStockDividends H cl \<lparr>in_ticker = t, in_limit = Some (Fin 10)\<rparr>
   \<and> getStockSplits H cl \<lparr>in_ticker = t, in_limit = None\<rparr>
     = getStockSplits H cl \<lparr>in_ticker = t, in_limit = Some (Fin 5)\<rparr>
   \<and> fst (getStockNews H cl \<lparr>in_ticker = t, in_limit = Some n\<rparr>)
     = [TickerNews \<lparr>lq_ticker = t, lq_limit = n\<rparr>]
   \<and> fst (getStockDividends H cl \<lparr>in_ticker = t, in_limit = Some n\<rparr>)
     = [Dividends \<lparr>lq_ticker = t, lq_limit = n\<rparr>]
   \<and> fst (getStockSplits H cl \<lparr>in_ticker = t, in_limit = Some n\<rparr>)
     = [StockSplits \<lparr>lq_ticker = t, lq_limit = n\<rparr>]"
  by (simp add: getStockNews_def getStockDividends_def getStockSplits_def Let_def)

section \<open>The price tool, end to end\<close>

text \<open>
  Claim C7, as amended. For the ticker \<open>AAPL\<close> and a provider that returns the one
  bar \<open>{o: 150, c: 157.5, h: 158, l: 149, v: 1000000, vw: w}\<close>, the two
  daily-aggregates variants of the price tool answer with \<open>data.changePercent\<close>
  equal to 5 and a root node of kind \<open>div\<close> (nodes written out) or \<open>card\<close>
  (nodes from the builders) whose children are a chart and then a table with the rows
  Volume, Open, High, Low and VWAP. The previous-close variant answers the same bar, with
  or without \<open>vw\<close>, with \<open>data.changePercent\<close> equal to 5 and a \<open>div\<close>
  whose only child is the chart.
\<close>

theorem price_scenario:
  "(\<exists>env pd.
       snd (getStockPrice H (serving closes (Inr (Some [scenario_bar (Some w)]))) ''AAPL'') = Inr env
     \<and> env_data env = PriceData pd \<and> pd_changePercent pd = Fin 5
     \<and> ui_type (env_ui env) = ''div''
     \<and> map ui_type (child_nodes (env_ui env)) = [''chart'', ''table'']
     \<and> table_cells ''metric'' (child_nodes (env_ui env) ! 1)
         = Some [Some (JStr ''Volume''), Some (JStr ''Open''), Some (JStr ''High''),
                 Some (JStr ''Low''), Some (JStr ''VWAP'')])
   \<and> (\<exists>env pd.
       snd (getStockPrice_built H (serving closes (Inr (Some [scenario_bar (Some w)]))) ''AAPL'') = Inr env
     \<and> env_data env = PriceData pd \<and> pd_changePercent pd = Fin 5
     \<and> ui_type (env_ui env) = ''card''
     \<and> map ui_type (child_nodes (env_ui env)) = [''chart'', ''table'']
     \<and> table_cells ''metric'' (child_nodes (env_ui env) ! 1)
         = Some [Some (JStr ''Volume''), Some (JStr ''Open''), Some (JStr ''High''),
                 Some (JStr ''Low''), Some (JStr ''VWAP'')])
   \<and> (\<exists>env pd.
       snd (getStockPrice_prev H
              (serving (\<lambda>t. Some [scenario_bar vw]) (Inr (Some [scenario_bar vw]))) ''AAPL'') = Inr env
     \<and> env_data env = PriceData pd \<and> pd_changePercent pd = Fin 5
     \<and> ui_type (env_ui env) = ''div''
     \<and> map ui_type (child_nodes (env_ui env)) = [''chart''])"
proof (intro conjI)
  show "\<exists>env pd.
       snd (getStockPrice H (serving closes (Inr (Some [scenario_bar (Some w)]))) ''AAPL'') = Inr env
     \<and> env_data env = PriceData pd \<and> pd_changePercent pd = Fin 5
     \<and> ui_type (env_ui env) = ''div''
     \<and> map ui_type (child_nodes (env_ui env)) = [''chart'', ''table'']
     \<and> table_cells ''metric'' (child_nodes (env_ui env) ! 1)
         = Some [Some (JStr ''Volume''), Some (JStr ''Open''), Some (JStr ''High''),
                 Some (JStr ''Low''), Some (JStr ''VWAP'')]"
    by (simp add: getStockPrice_def serving_def scenario_daily metric_cells price_data_of_def
          parse_examples)
  show "\<exists>env pd.
       snd (getStockPrice_built H (serving closes (Inr (Some [scenario_bar (Some w)]))) ''AAPL'') = Inr env
     \<and> env_data env = PriceData pd \<and> pd_changePercent pd = Fin 5
     \<and> ui_type (env_ui env) = ''card''
     \<and> map ui_type (child_nodes (env_ui env)) = [''chart'', ''table'']
     \<and> table_cells ''metric'' (child_nodes (env_ui env) ! 1)
         = Some [Some (JStr ''Volume''), Some (JStr ''Open''), Some (JStr ''High''),
                 Some (JStr ''Low''), Some (JStr ''VWAP'')]"
    by (simp add: getStockPrice_built_def serving_def scenario_built metric_cells
          price_data_of_def parse_examples)
  show "\<exists>env pd.
       snd (getStockPrice_prev H
              (serving (\<lambda>t. Some [scenario_bar vw]) (Inr (Some [scenario_bar vw]))) ''AAPL'') = Inr env
     \<and> env_data env = PriceData pd \<and> pd_changePercent pd = Fin 5
     \<and> ui_type (env_ui env) = ''div''
     \<and> map ui_type (child_nodes (env_ui env)) = [''chart'']"
    by (simp add: getStockPrice_prev_def serving_def index_first_def first_result_def
          scenario_prev)
qed

text \<open>
  The claim as it was stated gives the bar no \<open>vw\<close>. On that bar the two
  daily-aggregates variants throw at \<open>latestData.vw.toFixed(2)\<close>, and the
  previous-close variant, whose table node is commented out, has no table child.
\<close>

theorem price_scenario_without_vwap:
  "snd (getStockPrice plain_host
          (serving (\<lambda>t. Some [scenario_bar None]) (Inr (Some [scenario_bar None]))) ''AAPL'')
     = Inl TypeError
   \<and> snd (getStockPrice_built plain_host
          (serving (\<lambda>t. Some [scenario_bar None]) (Inr (Some [scenario_bar None]))) ''AAPL'')
     = Inl TypeError
   \<and> map_sum id (\<lambda>env. map ui_type (child_nodes (env_ui env)))
        (snd (getStockPrice_prev plain_host
                (serving (\<lambda>t. Some [scenario_bar None]) (Inr (Some [scenario_bar None]))) ''AAPL''))
     = Inr [''chart'']"
  by (simp add: getStockPrice_def getStockPrice_built_def getStockPrice_prev_def serving_def
        scenario_daily_missing index_first_def first_result_def scenario_prev)

section \<open>Children in call order\<close>

text \<open>
  Claim C8. A card built by adding \<open>A\<close> and then \<open>B\<close> has the children
  \<open>[A, B]\<close>, after whatever children it had, whatever its title and content. The
  nodes that are written out keep the order in which they are written: the overview has
  its table first and the chart, when there is one, pushed after it; the price tool has
  the chart and then the table, in both daily-aggregates variants.
\<close>

theorem children_in_call_order:
  "child_nodes (card_build (addChild B (addChild A b))) = cd_children b @ [A, B]
   \<and> child_nodes (card_build (addChild B (addChild A CardUIBuilder))) = [A, B]
   \<and> child_nodes (card_build (addChild B (addChild A (card_content c (card_title t CardUIBuilder)))))
       = [A, B]
   \<and> overview_children H results history
       = UINode ''table'' (Some (table_payload overview_columns (map (overview_row H) results))) None
         # (if 0 < length (history_points H history)
            then [UINode ''chart'' (Some (history_chartData H history)) None] else [])
   \<and> (getStockPrice_built_respond H ticker rs = Inr env
      \<longrightarrow> (\<exists>d rws chartNode tableNode.
             first_result rs = Some d
           \<and> chart_build (price_chartBuilder H ticker rs (bar_changePercent H d)) = Inr chartNode
           \<and> table_build (rows rws (addColumns built_columns TableUIBuilder)) = Inr tableNode
           \<and> child_nodes (env_ui env) = [chartNode, tableNode]))
   \<and> (getStockPrice_respond H ticker rs = Inr env
      \<longrightarrow> map ui_type (child_nodes (env_ui env)) = [''chart'', ''table''])"
proof (intro conjI impI)
  assume "getStockPrice_built_respond H ticker rs = Inr env"
  then show "\<exists>d rws chartNode tableNode.
             first_result rs = Some d
           \<and> chart_build (price_chartBuilder H ticker rs (bar_changePercent H d)) = Inr chartNode
           \<and> table_build (rows rws (addColumns built_columns TableUIBuilder)) = Inr tableNode
           \<and> child_nodes (env_ui env) = [chartNode, tableNode]"
    by (rule getStockPrice_built_respond_success) auto
next
  assume "getStockPrice_respond H ticker rs = Inr env"
  then show "map ui_type (child_nodes (env_ui env)) = [''chart'', ''table'']"
    by (rule getStockPrice_respond_success) auto
qed (simp_all add: card_build_def addChild_def CardUIBuilder_def card_content_def card_title_def
       overview_children_def)

theorem children_in_call_order_witness:
  "getStockPrice_built_respond plain_host ''AAPL'' (Some [scenario_bar (Some (Fin 155))])
     = Inr (projr (getStockPrice_built_respond plain_host ''AAPL''
                     (Some [scenario_bar (Some (Fin 155))])))
   \<and> map ui_type (child_nodes (env_ui (projr (getStockPrice_built_respond plain_host ''AAPL''
                     (Some [scenario_bar (Some (Fin 155))])))))
       = [''chart'', ''table'']
   \<and> getStockPrice_respond plain_host ''AAPL'' (Some [scenario_bar (Some (Fin 155))])
     = Inr (projr (getStockPrice_respond plain_host ''AAPL''
                     (Some [scenario_bar (Some (Fin 155))])))
   \<and> map ui_type (child_nodes (env_ui (projr (getStockPrice_respond plain_host ''AAPL''
                     (Some [scenario_bar (Some (Fin 155))])))))
       = [''chart'', ''table'']"
proof -
  have b: "getStockPrice_built_respond plain_host ''AAPL'' (Some [scenario_bar (Some (Fin 155))])
     = Inr (projr (getStockPrice_built_respond plain_host ''AAPL''
                     (Some [scenario_bar (Some (Fin 155))])))"
    by (simp add: scenario_built)
  have r: "getStockPrice_respond plain_host ''AAPL'' (Some [scenario_bar (Some (Fin 155))])
     = Inr (projr (getStockPrice_respond plain_host ''AAPL''
                     (Some [scenario_bar (Some (Fin 155))])))"
    by (simp add: scenario_daily)
  from children_in_call_order[of _ _ _ _ _ plain_host _ _ "''AAPL''"
      "Some [scenario_bar (Some (Fin 155))]"
      "projr (getStockPrice_respond plain_host ''AAPL'' (Some [scenario_bar (Some (Fin 155))]))"]
  have x: "map ui_type (child_nodes (env_ui (projr (getStockPrice_respond plain_host ''AAPL''
                     (Some [scenario_bar (Some (Fin 155))])))))
       = [''chart'', ''table'']"
    using r by blast
  have y: "map ui_type (child_nodes (env_ui (projr (getStockPrice_built_respond plain_host ''AAPL''
                     (Some [scenario_bar (Some (Fin 155))])))))
       = [''chart'', ''table'']"
    by (simp add: scenario_built)
  show ?thesis using b r x y by simp
qed

section \<open>The table round trip\<close>

text \<open>
  Claim C9. A table node holds its columns and its rows as they were given, in order
  and content: reading the payload back returns both. This holds for the table nodes
  the handlers write out, for every columns and rows, and for the node
  \<open>buildTable\<close> emits; \<open>buildTable\<close> emits a node unless there is no column.
\<close>

theorem table_round_trip:
  "read_table (UINode ''table'' (Some (table_payload cs rs)) None) = Some (cs, rs)
   \<and> map_sum id read_table (buildTable cs rs)
       = (if cs = [] then Inl (SchemaError ''columns'') else Inr (Some (cs, rs)))"
  by (simp add: read_table_def read_table_payload_inverse buildTable_def table_build_def
        rows_def addColumns_def TableUIBuilder_def)

section \<open>One percent change in three places\<close>



end
